theory Spec2Isabelle
  imports Main "HOL-Library.Sublist"
begin

section \<open>Python text primitives\<close>

text \<open>
  The two programs (\<^verbatim>\<open>ADBTool.py\<close>, the blocking variant, and
  \<^verbatim>\<open>ADBTool_multithread.py\<close>, the threaded variant) post-process the text an external
  tool printed. A Python \<^verbatim>\<open>str\<close> is modelled as a \<^typ>\<open>string\<close>: the text in its
  UTF-8 rendering, one \<^typ>\<open>char\<close> per byte. The primitives below are Python's on the
  ASCII range: \<^verbatim>\<open>str.lower\<close> maps \<^verbatim>\<open>A..Z\<close> to \<^verbatim>\<open>a..z\<close>,
  \<^verbatim>\<open>str.isspace\<close> and the line boundaries of \<^verbatim>\<open>str.splitlines\<close> are the
  ASCII ones. Bytes from 128 on (parts of a multi-byte character) are left alone by
  \<open>lower\<close> and are neither blank nor a line boundary; Python's treatment of
  non-ASCII letters, blanks and separators is outside the model. The markers the
  formatters search the lowered text for (\<^verbatim>\<open>no devices\<close>, \<^verbatim>\<open>success\<close>,
  \<^verbatim>\<open>failed\<close>, \<^verbatim>\<open>error\<close>) are ASCII, and lowering a non-ASCII character never
  completes one of them (U+212A gives \<^verbatim>\<open>k\<close>, which is in none; U+0130 gives
  \<^verbatim>\<open>i\<close> followed by a combining dot, where every marker goes on with a letter),
  so these tests come out on every text as they do in Python. Where a statement depends
  on blanks or on the lowering of a whole path, it is stated for ASCII texts.
  The test \<^verbatim>\<open>a in b\<close> on texts is \<^term>\<open>sublist a b\<close>:
  \<open>a\<close> occurs in \<open>b\<close> as a contiguous run.
\<close>

abbreviation NL :: char where "NL \<equiv> CHR 0x0A"
abbreviation TAB :: char where "TAB \<equiv> CHR 0x09"
abbreviation DQ :: char where "DQ \<equiv> CHR 0x22"
abbreviation BACKSLASH :: char where "BACKSLASH \<equiv> CHR 0x5C"

text \<open>The arrow U+2192 of \<^verbatim>\<open>format_devices\<close>, in UTF-8.\<close>

abbreviation ARROW :: string where "ARROW \<equiv> [CHR 0xE2, CHR 0x86, CHR 0x92]"

definition isspace :: "char \<Rightarrow> bool" where
  "isspace c = (c \<in> {CHR 0x09, CHR 0x0A, CHR 0x0B, CHR 0x0C, CHR 0x0D,
                      CHR 0x1C, CHR 0x1D, CHR 0x1E, CHR 0x1F, CHR 0x20})"

definition is_linebreak :: "char \<Rightarrow> bool" where
  "is_linebreak c = (c \<in> {CHR 0x0A, CHR 0x0B, CHR 0x0C, CHR 0x0D, CHR 0x1C, CHR 0x1D, CHR 0x1E})"

text \<open>\<^verbatim>\<open>s.strip()\<close>: blanks removed at both ends.\<close>

definition strip :: "string \<Rightarrow> string" where
  "strip s = rev (dropWhile isspace (rev (dropWhile isspace s)))"

text \<open>\<^verbatim>\<open>s.lower()\<close>: an upper-case ASCII letter gets bit 5 set (its code plus 32).\<close>

definition lower_char :: "char \<Rightarrow> char" where
  "lower_char c =
     (if 65 \<le> (of_char c :: nat) \<and> (of_char c :: nat) \<le> 90
      then (case c of Char b0 b1 b2 b3 b4 b5 b6 b7 \<Rightarrow> Char b0 b1 b2 b3 b4 True b6 b7)
      else c)"

definition lower :: "string \<Rightarrow> string" where
  "lower s = map lower_char s"

text \<open>
  \<^verbatim>\<open>s.splitlines()\<close>: the lines without their terminators; \<^verbatim>\<open>\r\n\<close> is one
  terminator; a terminator at the very end opens no further line. \<open>cur\<close> is the line
  being read.
\<close>

fun splitlines_from :: "string \<Rightarrow> string \<Rightarrow> string list" where
  "splitlines_from cur [] = (if cur = [] then [] else [cur])"
| "splitlines_from cur (c # cs) =
     (if c = CHR 0x0D \<and> cs \<noteq> [] \<and> hd cs = CHR 0x0A then cur # splitlines_from [] (tl cs)
      else if is_linebreak c then cur # splitlines_from [] cs
      else splitlines_from (cur @ [c]) cs)"

definition splitlines :: "string \<Rightarrow> string list" where
  "splitlines s = splitlines_from [] s"

text \<open>
  \<^verbatim>\<open>s.replace(old, new)\<close>: every occurrence of \<open>old\<close>, found from the left without
  overlap, becomes \<open>new\<close>; the inserted text is not searched again. (For an empty
  \<open>old\<close> Python puts \<open>new\<close> before every character and at the end.)
\<close>

fun replace :: "string \<Rightarrow> string \<Rightarrow> string \<Rightarrow> string" where
  "replace [] old new = (if old = [] then new else [])"
| "replace (c # cs) old new =
     (if old = [] then new @ c # replace cs old new
      else if prefix old (c # cs) then new @ replace (drop (length old - 1) cs) old new
      else c # replace cs old new)"

text \<open>\<^verbatim>\<open>sep.join(xs)\<close>.\<close>

fun join :: "string \<Rightarrow> string list \<Rightarrow> string" where
  "join sep [] = []"
| "join sep [x] = x"
| "join sep (x # y # ys) = x @ sep @ join sep (y # ys)"

section \<open>The output formatters of the threaded variant\<close>

text \<open>
  \<^verbatim>\<open>ADBTool_multithread.py\<close>, lines 222 to 407. Each formatter takes the captured
  text (standard output followed by standard error) and returns the text to display.
  None of them uses an operation that can raise on a \<^verbatim>\<open>str\<close>: they split, trim,
  lower, search, replace, join and slice (\<^verbatim>\<open>lines[1:]\<close> is \<^term>\<open>drop 1 lines\<close>,
  empty on a list of fewer than two lines).
\<close>

definition format_devices :: "string \<Rightarrow> string" where
  \<open>format_devices output =
     (let lines = filter (\<lambda>ln. strip ln \<noteq> []) (splitlines output) in
      if lines = [] \<or> list_all (\<lambda>ln. \<not> sublist ''device'' ln) (drop 1 lines)
      then ''No devices connected!'' @ [NL, NL] @ ''Command run: "adb devices"''
      else join [NL] (map (\<lambda>ln. replace ln (TAB # ''device'') ('' '' @ ARROW @ '' Connected''))
                          (drop 1 lines))
           @ [NL, NL] @ ''Command run: "adb devices"'')\<close>

definition format_install :: "string \<Rightarrow> string" where
  \<open>format_install output =
     (if sublist ''Success'' output \<or> sublist ''success'' (lower output)
      then ''Installation Successful!'' @ [NL, NL] @ ''Command run: "adb install <APK_PATH>"''
      else if sublist ''no devices'' (lower output) then ''No devices connected!''
      else ''Installation Result:'' @ [NL] @ output @ [NL, NL]
           @ ''Command run: "adb install <APK_PATH>"'')\<close>

definition format_search :: "string \<Rightarrow> string" where
  \<open>format_search output =
     (if strip output = []
      then ''No package found!'' @ [NL, NL]
           @ ''Command run: "adb shell pm list packages | grep <PACKAGE_NAME>"''
      else if sublist ''no devices'' (lower output) then ''No devices connected!''
      else join [NL] (map (\<lambda>ln. replace ln ''package:'' [])
                          (filter (\<lambda>ln. strip ln \<noteq> []) (splitlines output)))
           @ [NL, NL] @ ''Command run: "adb shell pm list packages | grep <PACKAGE_NAME>"'')\<close>

definition format_uninstall :: "string \<Rightarrow> string" where
  \<open>format_uninstall output =
     (if sublist ''Success'' output \<or> sublist ''success'' (lower output)
      then ''Uninstallation Successful!''
      else if sublist ''no devices'' (lower output) then ''No devices connected!''
      else ''Uninstallation Result:'' @ [NL] @ output @ [NL, NL]
           @ ''Command run: "adb uninstall <PACKAGE_NAME>"'')\<close>

definition format_sideload :: "string \<Rightarrow> string" where
  \<open>format_sideload output =
     (if sublist ''failed'' (lower output)
      then ''Make sure the device is in sideload mode and try again.'' @ [NL]
           @ ''(Select "Apply update from ADB" in Recovery Mode)'' @ [NL, NL] @ output
      else ''Sideloading Finished. (Check output below.)'' @ [NL, NL] @ output @ [NL, NL]
           @ ''Command run: "adb sideload <FIRMWARE_PATH>.zip"'')\<close>

definition format_shutdown :: "string \<Rightarrow> string" where
  \<open>format_shutdown output =
     (if sublist ''no devices'' (lower output) then ''No devices connected!''
      else ''Shutdown initiated'' @ [NL, NL] @ ''Command run: "adb reboot -p"'')\<close>

definition format_recovery :: "string \<Rightarrow> string" where
  \<open>format_recovery output =
     (if sublist ''no devices'' (lower output) then ''No devices connected!''
      else ''Recovery initiated'' @ [NL, NL] @ ''Command run: "adb reboot recovery"'')\<close>

definition format_reboot :: "string \<Rightarrow> string" where
  \<open>format_reboot output =
     (if sublist ''no devices'' (lower output) then ''No devices connected!''
      else ''Reboot initiated'' @ [NL, NL] @ ''Command run: "adb reboot"'')\<close>

definition format_back :: "string \<Rightarrow> string" where
  \<open>format_back output =
     (if sublist ''no devices'' (lower output) then ''No devices connected!''
      else ''Back command executed'' @ [NL, NL]
           @ ''Command run: "adb shell input keyevent 4"'')\<close>

definition format_home :: "string \<Rightarrow> string" where
  \<open>format_home output =
     (if sublist ''no devices'' (lower output) then ''No devices connected!''
      else ''Home command executed'' @ [NL, NL]
           @ ''Command run: "adb shell input keyevent 3"'')\<close>

definition format_applications :: "string \<Rightarrow> string" where
  \<open>format_applications output =
     (if sublist ''no devices'' (lower output) then ''No devices connected!''
      else ''Applications command executed'' @ [NL, NL]
           @ ''Command run: "adb shell input keyevent 187"'')\<close>

definition format_volume_up :: "string \<Rightarrow> string" where
  \<open>format_volume_up output =
     (if sublist ''no devices'' (lower output) then ''No devices connected!''
      else ''Volume Up command executed'' @ [NL, NL]
           @ ''Command run: "adb shell input keyevent 24"'')\<close>

definition format_power :: "string \<Rightarrow> string" where
  \<open>format_power output =
     (if sublist ''no devices'' (lower output) then ''No devices connected!''
      else ''Power (Lock/Unlock) command executed'' @ [NL, NL]
           @ ''Command run: "adb shell input keyevent 26"'')\<close>

definition format_volume_down :: "string \<Rightarrow> string" where
  \<open>format_volume_down output =
     (if sublist ''no devices'' (lower output) then ''No devices connected!''
      else ''Volume Down command executed'' @ [NL, NL]
           @ ''Command run: "adb shell input keyevent 25"'')\<close>

definition format_settings :: "string \<Rightarrow> string" where
  \<open>format_settings output =
     (if sublist ''no devices'' (lower output) then ''No devices connected!''
      else ''Settings command executed'' @ [NL, NL]
           @ ''Command run: "adb shell am start -n com.android.settings/.Settings"'')\<close>

definition format_factory_test :: "string \<Rightarrow> string" where
  \<open>format_factory_test output =
     (if sublist ''no devices'' (lower output) then ''No devices connected!''
      else ''Factory Test command executed'' @ [NL, NL]
           @ ''Command run: "adb shell am start -n com.ubx.factorykit/.Framework.Framework"'')\<close>

definition format_push :: "string \<Rightarrow> string" where
  \<open>format_push output =
     (if sublist ''no devices'' (lower output) then ''No devices connected!''
      else if sublist ''failed'' (lower output)
      then ''Push failed. Check the local and device paths.'' @ [NL, NL] @ output
      else ''File pushed successfully:'' @ [NL] @ output @ [NL, NL]
           @ ''Command run: "adb push <LOCAL_PATH> <DEVICE_PATH>"'')\<close>

definition format_storage :: "string \<Rightarrow> string" where
  \<open>format_storage output =
     (if sublist ''no devices'' (lower output) then ''No devices connected!''
      else ''Device Storage:'' @ [NL] @ output @ [NL, NL]
           @ ''Command run: "adb shell ls -l <DEVICE_PATH>"'')\<close>

definition format_pull :: "string \<Rightarrow> string" where
  \<open>format_pull output =
     (if sublist ''no devices'' (lower output) then ''No devices connected!''
      else if sublist ''failed'' (lower output)
      then ''Pull failed. Check the device and local paths.'' @ [NL, NL] @ output
      else ''File pulled successfully:'' @ [NL] @ output @ [NL, NL]
           @ ''Command run: "adb pull <DEVICE_PATH> <LOCAL_PATH>"'')\<close>

definition format_screenshot :: "string \<Rightarrow> string" where
  \<open>format_screenshot output =
     (if sublist ''no devices'' (lower output) then ''No devices connected!''
      else if sublist ''failed'' (lower output)
      then ''Screenshot failed. Check the device state.'' @ [NL, NL] @ output
      else ''Screenshot saved on device under /sdcard/Pictures/Screenshot_*.png'' @ [NL]
           @ ''You may pull it to your Mac with adb pull.'' @ [NL, NL]
           @ ''Command run: "adb shell screencap -p /sdcard/Pictures/<Screenshot_Timestamp>.png"'')\<close>

definition format_network :: "string \<Rightarrow> string" where
  \<open>format_network output =
     (if sublist ''no devices'' (lower output) then ''No devices connected!''
      else if strip output = []
      then ''Network check returned no output. Device might be offline or command unsupported.''
      else ''Network configuration:'' @ [NL] @ output @ [NL, NL]
           @ ''Command run: "adb shell ifconfig"'')\<close>

text \<open>
  \<^verbatim>\<open>format_activity\<close> returns from inside its loop at the first line that holds one
  of the two markers (\<^const>\<open>find\<close>); the statement after the loop is the
  \<open>None\<close> case.
\<close>

definition format_activity :: "string \<Rightarrow> string" where
  \<open>format_activity output =
     (if sublist ''no devices'' (lower output) then ''No devices connected!''
      else if \<not> sublist ''mCurrentFocus'' output \<and> \<not> sublist ''mFocusedApp'' output
      then ''No current activity found. Output:'' @ [NL] @ output
      else (case find (\<lambda>ln. sublist ''mCurrentFocus'' ln \<or> sublist ''mFocusedApp'' ln)
                      (splitlines output) of
              Some ln \<Rightarrow> ''Current focus:'' @ [NL] @ strip ln @ [NL, NL]
                         @ ''Command run: "adb shell dumpsys window | grep mCurrentFocus"''
            | None \<Rightarrow> ''Current activity (raw output):'' @ [NL] @ output))\<close>

text \<open>
  \<^verbatim>\<open>format_scrcpy\<close> looks for the upper-case marker in the lowered text, as the source
  does.
\<close>

definition format_scrcpy :: "string \<Rightarrow> string" where
  \<open>format_scrcpy output =
     (if sublist ''ERROR'' (lower output) then ''No devices connected!''
      else ''CASTING started in the BACKGROUND'')\<close>

definition format_text :: "string \<Rightarrow> string" where
  \<open>format_text output =
     (if sublist ''no devices'' (lower output) then ''No devices connected!''
      else ''Text entered.'' @ [NL, NL] @ ''Command run: "adb shell input text <TEXT>"'')\<close>

definition format_command :: "string \<Rightarrow> string" where
  \<open>format_command output =
     (if sublist ''no devices'' (lower output) then ''No devices connected!''
      else output)\<close>

definition format_start_activity :: "string \<Rightarrow> string" where
  \<open>format_start_activity output =
     (if sublist ''no devices'' (lower output) then ''No devices connected!''
      else if sublist ''Error'' output \<or> sublist ''not found'' (lower output)
      then ''Failed to start activity. Check the package/activity name.'' @ [NL, NL] @ output
      else ''Activity started (or adb returned output):'' @ [NL] @ output @ [NL, NL]
           @ ''Command run: "adb shell am start -n <PACKAGE_NAME>/<ACTIVITY_NAME>"'')\<close>

section \<open>The output formatters of the blocking variant\<close>

text \<open>
  \<^verbatim>\<open>ADBTool.py\<close>, lines 102 to 258: the formatters of the blocking variant, embedded
  from that file on their own. It has no \<^verbatim>\<open>format_scrcpy\<close>.
\<close>

definition format_devices_blocking :: "string \<Rightarrow> string" where
  \<open>format_devices_blocking output =
     (let lines = filter (\<lambda>ln. strip ln \<noteq> []) (splitlines output) in
      if lines = [] \<or> list_all (\<lambda>ln. \<not> sublist ''device'' ln) (drop 1 lines)
      then ''No devices connected!'' @ [NL, NL] @ ''Command run: "adb devices"''
      else join [NL] (map (\<lambda>ln. replace ln (TAB # ''device'') ('' '' @ ARROW @ '' Connected''))
                          (drop 1 lines))
           @ [NL, NL] @ ''Command run: "adb devices"'')\<close>

definition format_install_blocking :: "string \<Rightarrow> string" where
  \<open>format_install_blocking output =
     (if sublist ''Success'' output \<or> sublist ''success'' (lower output)
      then ''Installation Successful!'' @ [NL, NL] @ ''Command run: "adb install <APK_PATH>"''
      else if sublist ''no devices'' (lower output) then ''No devices connected!''
      else ''Installation Result:'' @ [NL] @ output @ [NL, NL]
           @ ''Command run: "adb install <APK_PATH>"'')\<close>

definition format_search_blocking :: "string \<Rightarrow> string" where
  \<open>format_search_blocking output =
     (if strip output = []
      then ''No package found!'' @ [NL, NL]
           @ ''Command run: "adb shell pm list packages | grep <PACKAGE_NAME>"''
      else if sublist ''no devices'' (lower output) then ''No devices connected!''
      else join [NL] (map (\<lambda>ln. replace ln ''package:'' [])
                          (filter (\<lambda>ln. strip ln \<noteq> []) (splitlines output)))
           @ [NL, NL] @ ''Command run: "adb shell pm list packages | grep <PACKAGE_NAME>"'')\<close>

definition format_uninstall_blocking :: "string \<Rightarrow> string" where
  \<open>format_uninstall_blocking output =
     (if sublist ''Success'' output \<or> sublist ''success'' (lower output)
      then ''Uninstallation Successful!''
      else if sublist ''no devices'' (lower output) then ''No devices connected!''
      else ''Uninstallation Result:'' @ [NL] @ output @ [NL, NL]
           @ ''Command run: "adb uninstall <PACKAGE_NAME>"'')\<close>

definition format_sideload_blocking :: "string \<Rightarrow> string" where
  \<open>format_sideload_blocking output =
     (if sublist ''failed'' (lower output)
      then ''Make sure the device is in sideload mode and try again.'' @ [NL]
           @ ''(Select "Apply update from ADB" in Recovery Mode)'' @ [NL, NL] @ output
      else ''Sideloading Finished. (Check output below.)'' @ [NL, NL] @ output @ [NL, NL]
           @ ''Command run: "adb sideload <FIRMWARE_PATH>.zip"'')\<close>

definition format_shutdown_blocking :: "string \<Rightarrow> string" where
  \<open>format_shutdown_blocking output =
     (if sublist ''no devices'' (lower output) then ''No devices connected!''
      else ''Shutdown initiated'' @ [NL, NL] @ ''Command run: "adb reboot -p"'')\<close>

definition format_recovery_blocking :: "string \<Rightarrow> string" where
  \<open>format_recovery_blocking output =
     (if sublist ''no devices'' (lower output) then ''No devices connected!''
      else ''Recovery initiated'' @ [NL, NL] @ ''Command run: "adb reboot recovery"'')\<close>

definition format_reboot_blocking :: "string \<Rightarrow> string" where
  \<open>format_reboot_blocking output =
     (if sublist ''no devices'' (lower output) then ''No devices connected!''
      else ''Reboot initiated'' @ [NL, NL] @ ''Command run: "adb reboot"'')\<close>

definition format_back_blocking :: "string \<Rightarrow> string" where
  \<open>format_back_blocking output =
     (if sublist ''no devices'' (lower output) then ''No devices connected!''
      else ''Back command executed'' @ [NL, NL]
           @ ''Command run: "adb shell input keyevent 4"'')\<close>

definition format_home_blocking :: "string \<Rightarrow> string" where
  \<open>format_home_blocking output =
     (if sublist ''no devices'' (lower output) then ''No devices connected!''
      else ''Home command executed'' @ [NL, NL]
           @ ''Command run: "adb shell input keyevent 3"'')\<close>

definition format_applications_blocking :: "string \<Rightarrow> string" where
  \<open>format_applications_blocking output =
     (if sublist ''no devices'' (lower output) then ''No devices connected!''
      else ''Applications command executed'' @ [NL, NL]
           @ ''Command run: "adb shell input keyevent 187"'')\<close>

definition format_volume_up_blocking :: "string \<Rightarrow> string" where
  \<open>format_volume_up_blocking output =
     (if sublist ''no devices'' (lower output) then ''No devices connected!''
      else ''Volume Up command executed'' @ [NL, NL]
           @ ''Command run: "adb shell input keyevent 24"'')\<close>

definition format_power_blocking :: "string \<Rightarrow> string" where
  \<open>format_power_blocking output =
     (if sublist ''no devices'' (lower output) then ''No devices connected!''
      else ''Power (Lock/Unlock) command executed'' @ [NL, NL]
           @ ''Command run: "adb shell input keyevent 26"'')\<close>

definition format_volume_down_blocking :: "string \<Rightarrow> string" where
  \<open>format_volume_down_blocking output =
     (if sublist ''no devices'' (lower output) then ''No devices connected!''
      else ''Volume Down command executed'' @ [NL, NL]
           @ ''Command run: "adb shell input keyevent 25"'')\<close>

definition format_settings_blocking :: "string \<Rightarrow> string" where
  \<open>format_settings_blocking output =
     (if sublist ''no devices'' (lower output) then ''No devices connected!''
      else ''Settings command executed'' @ [NL, NL]
           @ ''Command run: "adb shell am start -n com.android.settings/.Settings"'')\<close>

definition format_factory_test_blocking :: "string \<Rightarrow> string" where
  \<open>format_factory_test_blocking output =
     (if sublist ''no devices'' (lower output) then ''No devices connected!''
      else ''Factory Test command executed'' @ [NL, NL]
           @ ''Command run: "adb shell am start -n com.ubx.factorykit/.Framework.Framework"'')\<close>

definition format_push_blocking :: "string \<Rightarrow> string" where
  \<open>format_push_blocking output =
     (if sublist ''no devices'' (lower output) then ''No devices connected!''
      else if sublist ''failed'' (lower output)
      then ''Push failed. Check the local and device paths.'' @ [NL, NL] @ output
      else ''File pushed successfully:'' @ [NL] @ output @ [NL, NL]
           @ ''Command run: "adb push <LOCAL_PATH> <DEVICE_PATH>"'')\<close>

definition format_storage_blocking :: "string \<Rightarrow> string" where
  \<open>format_storage_blocking output =
     (if sublist ''no devices'' (lower output) then ''No devices connected!''
      else ''Device Storage:'' @ [NL] @ output @ [NL, NL]
           @ ''Command run: "adb shell ls -l <DEVICE_PATH>"'')\<close>

definition format_pull_blocking :: "string \<Rightarrow> string" where
  \<open>format_pull_blocking output =
     (if sublist ''no devices'' (lower output) then ''No devices connected!''
      else if sublist ''failed'' (lower output)
      then ''Pull failed. Check the device and local paths.'' @ [NL, NL] @ output
      else ''File pulled successfully:'' @ [NL] @ output @ [NL, NL]
           @ ''Command run: "adb pull <DEVICE_PATH> <LOCAL_PATH>"'')\<close>

definition format_screenshot_blocking :: "string \<Rightarrow> string" where
  \<open>format_screenshot_blocking output =
     (if sublist ''no devices'' (lower output) then ''No devices connected!''
      else if sublist ''failed'' (lower output)
      then ''Screenshot failed. Check the device state.'' @ [NL, NL] @ output
      else ''Screenshot saved on device under /sdcard/Pictures/Screenshot_*.png'' @ [NL]
           @ ''You may pull it to your Mac with adb pull.'' @ [NL, NL]
           @ ''Command run: "adb shell screencap -p /sdcard/Pictures/<Screenshot_Timestamp>.png"'')\<close>

definition format_network_blocking :: "string \<Rightarrow> string" where
  \<open>format_network_blocking output =
     (if sublist ''no devices'' (lower output) then ''No devices connected!''
      else if strip output = []
      then ''Network check returned no output. Device might be offline or command unsupported.''
      else ''Network configuration:'' @ [NL] @ output @ [NL, NL]
           @ ''Command run: "adb shell ifconfig"'')\<close>

definition format_activity_blocking :: "string \<Rightarrow> string" where
  \<open>format_activity_blocking output =
     (if sublist ''no devices'' (lower output) then ''No devices connected!''
      else if \<not> sublist ''mCurrentFocus'' output \<and> \<not> sublist ''mFocusedApp'' output
      then ''No current activity found. Output:'' @ [NL] @ output
      else (case find (\<lambda>ln. sublist ''mCurrentFocus'' ln \<or> sublist ''mFocusedApp'' ln)
                      (splitlines output) of
              Some ln \<Rightarrow> ''Current focus:'' @ [NL] @ strip ln @ [NL, NL]
                         @ ''Command run: "adb shell dumpsys window | grep mCurrentFocus"''
            | None \<Rightarrow> ''Current activity (raw output):'' @ [NL] @ output))\<close>

definition format_text_blocking :: "string \<Rightarrow> string" where
  \<open>format_text_blocking output =
     (if sublist ''no devices'' (lower output) then ''No devices connected!''
      else ''Text entered.'' @ [NL, NL] @ ''Command run: "adb shell input text <TEXT>"'')\<close>

definition format_command_blocking :: "string \<Rightarrow> string" where
  \<open>format_command_blocking output =
     (if sublist ''no devices'' (lower output) then ''No devices connected!''
      else output)\<close>

definition format_start_activity_blocking :: "string \<Rightarrow> string" where
  \<open>format_start_activity_blocking output =
     (if sublist ''no devices'' (lower output) then ''No devices connected!''
      else if sublist ''Error'' output \<or> sublist ''not found'' (lower output)
      then ''Failed to start activity. Check the package/activity name.'' @ [NL, NL] @ output
      else ''Activity started (or adb returned output):'' @ [NL] @ output @ [NL, NL]
           @ ''Command run: "adb shell am start -n <PACKAGE_NAME>/<ACTIVITY_NAME>"'')\<close>

section \<open>The external world\<close>

text \<open>
  What the programs do not own is a parameter of the model. An exception is a value that
  carries the text \<^verbatim>\<open>str(e)\<close>; only subclasses of \<^verbatim>\<open>Exception\<close> are modelled
  (what \<^verbatim>\<open>except Exception\<close> catches). A started process answers
  \<^verbatim>\<open>communicate(timeout=t)\<close>, here \<open>communicate p (Some t)\<close>, by raising
  (\<open>TimeoutExpired\<close> when the time is up) or with its captured standard output and
  standard error. \<open>ends p\<close> tells whether the process ends on its own: when it does,
  \<open>communicate p None\<close> is the answer to a wait without a timeout; when it does not,
  a wait without a timeout never returns. \<^verbatim>\<open>subprocess.Popen\<close>
  with \<^verbatim>\<open>shell=True\<close> raises or starts a process. The file system and the home
  directory are seen through \<^verbatim>\<open>os.path.isfile\<close>, \<^verbatim>\<open>os.path.exists\<close> and
  \<^verbatim>\<open>os.path.expanduser\<close>.
\<close>

datatype py_exception = TimeoutExpired string | OSError string | OtherException string

fun str_of_exception :: "py_exception \<Rightarrow> string" where
  "str_of_exception (TimeoutExpired msg) = msg"
| "str_of_exception (OSError msg) = msg"
| "str_of_exception (OtherException msg) = msg"

datatype process =
  Process (communicate: "nat option \<Rightarrow> py_exception + (string option \<times> string option)")
          (ends: bool)

record os_env =
  popen :: "string \<Rightarrow> py_exception + process"
  isfile :: "string \<Rightarrow> bool"
  path_exists :: "string \<Rightarrow> bool"
  expanduser :: "string \<Rightarrow> string"

text \<open>\<^verbatim>\<open>x or ""\<close> on a captured stream.\<close>

fun or_empty :: "string option \<Rightarrow> string" where
  "or_empty None = []"
| "or_empty (Some s) = s"

text \<open>
  \<^verbatim>\<open>subprocess.run(cmd, capture_output=True, text=True, shell=True)\<close>: start the
  process and wait for it without a timeout. The call raises, returns the captured
  streams, or never returns (\<open>None\<close>) when the process does not end.
\<close>

definition subprocess_run ::
  "os_env \<Rightarrow> string \<Rightarrow> (py_exception + (string option \<times> string option)) option" where
  "subprocess_run env cmd =
     (case popen env cmd of
        Inl e \<Rightarrow> Some (Inl e)
      | Inr p \<Rightarrow> (if ends p then Some (communicate p None) else None))"

text \<open>\<^verbatim>\<open>os.path.join(a, b)\<close> on POSIX.\<close>

definition path_join :: "string \<Rightarrow> string \<Rightarrow> string" where
  "path_join a b =
     (if prefix ''/'' b then b
      else if a = [] \<or> suffix ''/'' a then a @ b
      else a @ ''/'' @ b)"

text \<open>The two paths fixed in \<^verbatim>\<open>__init__\<close>.\<close>

definition adb_path :: string where
  "adb_path = ''/Users/patrickxu/Library/Android/sdk/platform-tools/adb''"

definition scrcpy_path :: string where
  "scrcpy_path = ''/Users/patrickxu/scrcpy-macos-aarch64-v3.3.1/scrcpy''"

section \<open>The state of the threaded variant\<close>

text \<open>
  The widgets a handler can pass as \<^verbatim>\<open>button\<close>. \<^verbatim>\<open>self.activity_button\<close> is
  assigned twice in \<^verbatim>\<open>create_controls\<close>; at the time of a click it is the
  "Start Package/Activity" button, for both operations that pass it.
\<close>

datatype button =
    List_devices_button | Install_button | Search_button | Uninstall_button
  | Sideload_button | Shutdown_button | Recovery_button | Reboot_button
  | Back_button | Home_button | Apps_button | Vol_up_button | Power_button
  | Vol_down_button | Settings_button | Factory_button | Storage_button
  | Push_button | Pull_button | Network_button | Activity_button | Scrcpy_button
  | Command_button | Text_button

text \<open>
  A worker is a thread started by \<^verbatim>\<open>run_single_adb_command\<close>: the closure
  \<^verbatim>\<open>thread_target\<close> with the three arguments it captured.
\<close>

record worker =
  w_command :: string
  w_format_output_func :: "string \<Rightarrow> string"
  w_button :: "button option"

text \<open>
  The object \<^verbatim>\<open>self\<close> and what the process holds besides it: the attributes the
  handlers read and write, the text of the entry fields, the buttons that are disabled,
  the worker threads that have been started and have not ended (\<open>threads\<close>), the log
  of every command line handed to the operating system (\<open>launched\<close>), and whether the
  UI thread is inside a handler that never returns (\<open>ui_hung\<close>). The output box
  is its text: \<^verbatim>\<open>delete(1.0, END)\<close> followed by \<^verbatim>\<open>insert(END, s)\<close> sets it to
  \<open>s\<close>, a lone \<^verbatim>\<open>insert(END, s)\<close> appends.
\<close>

record adbtool =
  command_running :: bool
  progress_counter :: nat
  output_text :: string
  result_queue :: "(string \<times> button option) list"
  disabled :: "button set"
  threads :: "worker list"
  launched :: "string list"
  ui_hung :: bool
  install_apk_entry :: string
  search_apk_entry :: string
  uninstall_apk_entry :: string
  sideload_apk_entry :: string
  device_storage_entry :: string
  push_local_entry :: string
  push_device_entry :: string
  pull_local_entry :: string
  pull_device_entry :: string
  text_input_entry :: string
  start_activity_entry :: string

text \<open>
  The state \<^verbatim>\<open>__init__\<close> leaves when \<^verbatim>\<open>check_adb\<close> succeeded: the entry fields
  as \<^verbatim>\<open>create_controls\<close> fills them and the welcome line in the output box.
\<close>

definition init :: "os_env \<Rightarrow> adbtool" where
  "init env =
     (let desktop_default = path_join (expanduser env ''~'') ''Desktop'' in
      \<lparr>command_running = False, progress_counter = 0,
       output_text = ''ADB Tool ready. Click '' @ [CHR 0x27] @ ''List Devices'' @ [CHR 0x27]
                     @ '' to begin.'' @ [NL],
       result_queue = [], disabled = {}, threads = [], launched = [], ui_hung = False,
       install_apk_entry = desktop_default @ ''/'',
       search_apk_entry = [],
       uninstall_apk_entry = [],
       sideload_apk_entry = desktop_default @ ''/'',
       device_storage_entry = ''/sdcard/'',
       push_local_entry = path_join (expanduser env ''~'') ''Desktop'' @ ''/'',
       push_device_entry = ''/sdcard/'',
       pull_local_entry = path_join (expanduser env ''~'') ''Desktop'' @ ''/'',
       pull_device_entry = ''/sdcard/'',
       text_input_entry = [],
       start_activity_entry = []\<rparr>)"

section \<open>The command runner of the threaded variant\<close>

definition show_error :: "string \<Rightarrow> adbtool \<Rightarrow> adbtool" where
  "show_error msg st = st\<lparr>output_text := ''Error: '' @ msg @ [NL]\<rparr>"

text \<open>\<^verbatim>\<open>button.config(state=...)\<close> under \<^verbatim>\<open>if button:\<close>.\<close>

fun disable :: "button option \<Rightarrow> button set \<Rightarrow> button set" where
  "disable None bs = bs"
| "disable (Some b) bs = insert b bs"

fun enable :: "button option \<Rightarrow> button set \<Rightarrow> button set" where
  "enable None bs = bs"
| "enable (Some b) bs = bs - {b}"

text \<open>
  \<^verbatim>\<open>run_single_adb_command\<close> (lines 93 to 139), the part that runs on the UI thread:
  the busy check, the flag, the progress counter, the notice, the button, and the start
  of the worker thread.
\<close>

definition run_single_adb_command ::
  "string \<Rightarrow> (string \<Rightarrow> string) \<Rightarrow> button option \<Rightarrow> adbtool \<Rightarrow> adbtool" where
  "run_single_adb_command cmd format_output_func btn st =
     (if command_running st then show_error ''Another command is running. Please wait.'' st
      else st\<lparr>command_running := True,
              progress_counter := 0,
              output_text := ''Running command... Please wait.'' @ [NL],
              disabled := disable btn (disabled st),
              threads := threads st @
                [\<lparr>w_command = cmd, w_format_output_func = format_output_func, w_button = btn\<rparr>]\<rparr>)"

text \<open>
  The \<^verbatim>\<open>try\<close> block of \<^verbatim>\<open>thread_target\<close> (lines 109 to 132): the command lines
  it hands to \<^verbatim>\<open>Popen\<close>, and either the exception that left the block or the value of
  \<^verbatim>\<open>formatted_output\<close>. The screen-mirroring command is started and not waited for;
  every other command has \<^verbatim>\<open>adb\<close> replaced by the tool's path and is waited for
  with \<^verbatim>\<open>communicate(timeout=300)\<close>.
\<close>

definition thread_try :: "os_env \<Rightarrow> worker \<Rightarrow> string list \<times> (py_exception + string)" where
  "thread_try env w =
     (if w_command w = ''scrcpy''
      then ([scrcpy_path],
            case popen env scrcpy_path of
              Inl e \<Rightarrow> Inl e
            | Inr p \<Rightarrow> Inr (w_format_output_func w []))
      else let cmd = replace (w_command w) ''adb'' adb_path in
           ([cmd],
            case popen env cmd of
              Inl e \<Rightarrow> Inl e
            | Inr p \<Rightarrow>
                (case communicate p (Some 300) of
                   Inl e \<Rightarrow> Inl e
                 | Inr (stdout, stderr) \<Rightarrow>
                     Inr (w_format_output_func w (or_empty stdout @ or_empty stderr)))))"

text \<open>
  \<^verbatim>\<open>thread_target\<close> as a whole: \<^verbatim>\<open>except Exception as e\<close> turns the exception
  into \<^verbatim>\<open>"Error: " + str(e)\<close>, and \<^verbatim>\<open>finally\<close> puts the text and the button
  on the queue and clears the flag.
\<close>

definition thread_target :: "os_env \<Rightarrow> worker \<Rightarrow> adbtool \<Rightarrow> adbtool" where
  "thread_target env w st =
     (let (cmds, r) = thread_try env w;
          formatted_output = (case r of Inl e \<Rightarrow> ''Error: '' @ str_of_exception e | Inr t \<Rightarrow> t)
      in st\<lparr>launched := launched st @ cmds,
             result_queue := result_queue st @ [(formatted_output, w_button w)],
             command_running := False\<rparr>)"

text \<open>The \<open>i\<close>-th live worker thread runs to its end.\<close>

definition thread_exit :: "os_env \<Rightarrow> nat \<Rightarrow> adbtool \<Rightarrow> adbtool" where
  "thread_exit env i st =
     (if i < length (threads st)
      then thread_target env (threads st ! i)
             (st\<lparr>threads := take i (threads st) @ drop (Suc i) (threads st)\<rparr>)
      else st)"

text \<open>
  \<^verbatim>\<open>_check_queue\<close> (lines 141 to 153), one tick of the 100 ms timer: every queued
  result is shown, the flag is cleared and the button of the result is enabled again.
\<close>

definition check_queue :: "adbtool \<Rightarrow> adbtool" where
  "check_queue st =
     foldl (\<lambda>s (formatted_output, btn).
              s\<lparr>output_text := formatted_output,
                command_running := False,
                disabled := enable btn (disabled s)\<rparr>)
           (st\<lparr>result_queue := []\<rparr>) (result_queue st)"

text \<open>\<^verbatim>\<open>str(n)\<close> for a natural number.\<close>

fun str_of_nat :: "nat \<Rightarrow> string" where
  "str_of_nat n =
     (if n < 10 then [''0123456789'' ! n]
      else str_of_nat (n div 10) @ [''0123456789'' ! (n mod 10)])"

declare str_of_nat.simps [simp del]

text \<open>\<^verbatim>\<open>_update_progress\<close> (lines 155 to 161), one tick of the 1 s timer.\<close>

definition update_progress :: "adbtool \<Rightarrow> adbtool" where
  "update_progress st =
     (if command_running st
      then st\<lparr>progress_counter := progress_counter st + 1,
              output_text := ''Still running... ('' @ str_of_nat (progress_counter st + 1)
                             @ ''s)'' @ [NL]\<rparr>
      else st)"

section \<open>The button handlers of the threaded variant\<close>

text \<open>
  Lines 409 to 525. A handler reads its entry fields, checks them, builds the command
  line and hands it to \<^verbatim>\<open>run_single_adb_command\<close> with the formatter and the button
  of the operation. A check written \<^verbatim>\<open>not a or not b\<close> is a chain of tests in the
  order Python evaluates them.
\<close>

definition run_install_apk :: "os_env \<Rightarrow> adbtool \<Rightarrow> adbtool" where
  \<open>run_install_apk env st =
     (let apk_path = strip (install_apk_entry st) in
      if apk_path = [] then show_error ''Please enter a valid APK path'' st
      else let apk_path = expanduser env apk_path in
        if \<not> isfile env apk_path
        then show_error ''Please enter a valid APK path (file must exist and end with .apk)'' st
        else if \<not> suffix ''.apk'' (lower apk_path)
        then show_error ''Please enter a valid APK path (file must exist and end with .apk)'' st
        else run_single_adb_command (''adb install "'' @ apk_path @ ''"'')
               format_install (Some Install_button) st)\<close>

definition run_search_apk :: "adbtool \<Rightarrow> adbtool" where
  \<open>run_search_apk st =
     (let apk_name = strip (search_apk_entry st) in
      if apk_name = [] then show_error ''Please enter a valid APK/package name fragment'' st
      else run_single_adb_command
             (''adb shell pm list packages | grep -i "'' @ apk_name @ ''"'')
             format_search (Some Search_button) st)\<close>

definition run_uninstall_apk :: "adbtool \<Rightarrow> adbtool" where
  \<open>run_uninstall_apk st =
     (let apk_name = strip (uninstall_apk_entry st) in
      if apk_name = []
      then show_error ''Please enter a valid package name (e.g. com.example.app)'' st
      else if \<not> sublist ''com.'' apk_name
      then show_error ''Please enter a valid package name (e.g. com.example.app)'' st
      else run_single_adb_command (''adb uninstall "'' @ apk_name @ ''"'')
             format_uninstall (Some Uninstall_button) st)\<close>

definition run_sideload_firmware :: "os_env \<Rightarrow> adbtool \<Rightarrow> adbtool" where
  \<open>run_sideload_firmware env st =
     (let firmware_path = expanduser env (strip (sideload_apk_entry st)) in
      if firmware_path = [] then show_error ''Please enter a valid firmware path (.zip)'' st
      else if \<not> isfile env firmware_path
      then show_error ''Please enter a valid firmware path (.zip)'' st
      else if \<not> suffix ''.zip'' (lower firmware_path)
      then show_error ''Please enter a valid firmware path (.zip)'' st
      else run_single_adb_command (''adb sideload "'' @ firmware_path @ ''"'')
             format_sideload (Some Sideload_button) st)\<close>

definition run_check_storage :: "adbtool \<Rightarrow> adbtool" where
  \<open>run_check_storage st =
     (let path = strip (device_storage_entry st) in
      if path = []
      then show_error ''Please enter a valid device storage path (starting with /sdcard/)'' st
      else if \<not> prefix ''/sdcard/'' path
      then show_error ''Please enter a valid device storage path (starting with /sdcard/)'' st
      else run_single_adb_command (''adb shell ls -l "'' @ path @ ''"'')
             format_storage (Some Storage_button) st)\<close>

definition run_adb_push :: "os_env \<Rightarrow> adbtool \<Rightarrow> adbtool" where
  \<open>run_adb_push env st =
     (let local_path = expanduser env (strip (push_local_entry st));
          device_path = strip (push_device_entry st) in
      if local_path = [] then show_error ''Please select a valid local file'' st
      else if \<not> path_exists env local_path then show_error ''Please select a valid local file'' st
      else if device_path = []
      then show_error ''Please enter a valid device path (starting with /sdcard/)'' st
      else if \<not> prefix ''/sdcard/'' device_path
      then show_error ''Please enter a valid device path (starting with /sdcard/)'' st
      else run_single_adb_command
             (''adb push "'' @ local_path @ ''" "'' @ device_path @ ''"'')
             format_push (Some Push_button) st)\<close>

definition run_adb_pull :: "os_env \<Rightarrow> adbtool \<Rightarrow> adbtool" where
  \<open>run_adb_pull env st =
     (let device_path = strip (pull_device_entry st);
          local_path = expanduser env (strip (pull_local_entry st)) in
      if device_path = []
      then show_error ''Please enter a valid device path (starting with /sdcard/)'' st
      else if \<not> prefix ''/sdcard/'' device_path
      then show_error ''Please enter a valid device path (starting with /sdcard/)'' st
      else if local_path = [] then show_error ''Please select a valid local save path'' st
      else run_single_adb_command
             (''adb pull "'' @ device_path @ ''" "'' @ local_path @ ''"'')
             format_pull (Some Pull_button) st)\<close>

definition run_text_input :: "adbtool \<Rightarrow> adbtool" where
  \<open>run_text_input st =
     (let text = strip (text_input_entry st) in
      if text = [] then show_error ''Please enter some text'' st
      else let safe_text = replace text [DQ] [BACKSLASH, DQ] in
        run_single_adb_command (''adb shell input text "'' @ safe_text @ ''"'')
          format_text (Some Text_button) st)\<close>

definition run_execute_command :: "adbtool \<Rightarrow> adbtool" where
  \<open>run_execute_command st =
     (let cmd = strip (text_input_entry st) in
      if cmd = [] then show_error ''Please enter a valid command'' st
      else run_single_adb_command cmd format_command (Some Command_button) st)\<close>

definition run_start_activity :: "adbtool \<Rightarrow> adbtool" where
  \<open>run_start_activity st =
     (let activity = strip (start_activity_entry st) in
      if activity = []
      then show_error
             ''Please enter a valid Package/Activity (e.g. com.example/.MainActivity)'' st
      else run_single_adb_command (''adb shell am start -n "'' @ activity @ ''"'')
             format_start_activity (Some Activity_button) st)\<close>

text \<open>
  \<^verbatim>\<open>run_screenshot\<close> (lines 343 to 368) does not go through the runner: it builds two
  command lines from the timestamp \<open>ts\<close> (the value of
  \<^verbatim>\<open>datetime.now().strftime("%Y%m%d_%H%M%S")\<close>, sampled once), replaces \<^verbatim>\<open>adb\<close>
  in both and runs them on the UI thread with \<^verbatim>\<open>subprocess.run\<close>, without a
  timeout, the second only when the first printed neither \<^verbatim>\<open>error\<close> nor
  \<^verbatim>\<open>no devices\<close>. When one of the two never returns, the handler never returns and
  the UI thread stays in it.
\<close>

definition screenshot_commands :: "os_env \<Rightarrow> string \<Rightarrow> string \<times> string \<times> string" where
  \<open>screenshot_commands env ts =
     (let device_path = ''/sdcard/Pictures/Screenshot_'' @ ts @ ''.png'';
          local_path = expanduser env (''~/Desktop/Screenshot_'' @ ts @ ''.png'');
          screencap_cmd = ''adb shell screencap -p '' @ device_path;
          pull_cmd = ''adb pull '' @ device_path @ '' "'' @ local_path @ ''"''
      in (replace screencap_cmd ''adb'' adb_path, replace pull_cmd ''adb'' adb_path, local_path))\<close>

definition run_screenshot :: "os_env \<Rightarrow> string \<Rightarrow> adbtool \<Rightarrow> adbtool" where
  \<open>run_screenshot env ts st =
     (let (screencap_cmd, pull_cmd, local_path) = screenshot_commands env ts;
          st1 = st\<lparr>output_text := ''Taking screenshot...'' @ [NL],
                   launched := launched st @ [screencap_cmd]\<rparr>
      in case subprocess_run env screencap_cmd of
           None \<Rightarrow> st1\<lparr>ui_hung := True\<rparr>
         | Some (Inl e) \<Rightarrow>
             st1\<lparr>output_text := output_text st1 @ ''Error: '' @ str_of_exception e\<rparr>
         | Some (Inr (out, err)) \<Rightarrow>
             (let screencap_output = or_empty out @ or_empty err in
              if sublist ''error'' (lower screencap_output)
                 \<or> sublist ''no devices'' (lower screencap_output)
              then st1\<lparr>output_text := output_text st1 @ ''Screenshot failed: ''
                                        @ screencap_output @ [NL]\<rparr>
              else
                (let st2 = st1\<lparr>output_text := output_text st1 @ ''Screenshot taken on device.''
                                                @ [NL],
                               launched := launched st1 @ [pull_cmd]\<rparr>
                 in case subprocess_run env pull_cmd of
                      None \<Rightarrow> st2\<lparr>ui_hung := True\<rparr>
                    | Some (Inl e) \<Rightarrow>
                        st2\<lparr>output_text := output_text st2 @ ''Error: ''
                                                @ str_of_exception e\<rparr>
                    | Some (Inr (out2, err2)) \<Rightarrow>
                        st2\<lparr>output_text := output_text st2
                               @ format_pull (or_empty out2 @ or_empty err2)
                               @ [NL] @ ''Saved to: '' @ local_path\<rparr>)))\<close>

text \<open>
  The operations of \<^verbatim>\<open>create_controls\<close> (lines 565 to 714) that build a command line,
  each with the command its button is bound to. ("Get Device Info" passes argument
  vectors to seven processes of its own and is left out.)
\<close>

datatype operation =
    List_devices | Install_apk | Search_apk | Uninstall_apk | Sideload_firmware
  | Shutdown | Recovery_mode | Reboot | Back | Home | Applications | Volume_up
  | Lock_unlock | Volume_down | Settings | Factory_test | Check_storage | Push_file
  | Pull_file | Screen_shot | Check_network | Check_activity | Cast_screen
  | Execute_command | Enter_text | Start_activity

fun click :: "os_env \<Rightarrow> string \<Rightarrow> operation \<Rightarrow> adbtool \<Rightarrow> adbtool" where
  "click env ts List_devices st =
     run_single_adb_command ''adb devices'' format_devices (Some List_devices_button) st"
| "click env ts Install_apk st = run_install_apk env st"
| "click env ts Search_apk st = run_search_apk st"
| "click env ts Uninstall_apk st = run_uninstall_apk st"
| "click env ts Sideload_firmware st = run_sideload_firmware env st"
| "click env ts Shutdown st =
     run_single_adb_command ''adb reboot -p'' format_shutdown (Some Shutdown_button) st"
| "click env ts Recovery_mode st =
     run_single_adb_command ''adb reboot recovery'' format_recovery (Some Recovery_button) st"
| "click env ts Reboot st =
     run_single_adb_command ''adb reboot'' format_reboot (Some Reboot_button) st"
| "click env ts Back st =
     run_single_adb_command ''adb shell input keyevent 4'' format_back (Some Back_button) st"
| "click env ts Home st =
     run_single_adb_command ''adb shell input keyevent 3'' format_home (Some Home_button) st"
| "click env ts Applications st =
     run_single_adb_command ''adb shell input keyevent 187'' format_applications
       (Some Apps_button) st"
| "click env ts Volume_up st =
     run_single_adb_command ''adb shell input keyevent 24'' format_volume_up
       (Some Vol_up_button) st"
| "click env ts Lock_unlock st =
     run_single_adb_command ''adb shell input keyevent 26'' format_power (Some Power_button) st"
| "click env ts Volume_down st =
     run_single_adb_command ''adb shell input keyevent 25'' format_volume_down
       (Some Vol_down_button) st"
| "click env ts Settings st =
     run_single_adb_command ''adb shell am start -n com.android.settings/.Settings''
       format_settings (Some Settings_button) st"
| "click env ts Factory_test st =
     run_single_adb_command ''adb shell am start -n com.ubx.factorykit/.Framework.Framework''
       format_factory_test (Some Factory_button) st"
| "click env ts Check_storage st = run_check_storage st"
| "click env ts Push_file st = run_adb_push env st"
| "click env ts Pull_file st = run_adb_pull env st"
| "click env ts Screen_shot st = run_screenshot env ts st"
| "click env ts Check_network st =
     run_single_adb_command ''adb shell ifconfig'' format_network (Some Network_button) st"
| "click env ts Check_activity st =
     run_single_adb_command ''adb shell dumpsys window | grep mCurrentFocus'' format_activity
       (Some Activity_button) st"
| "click env ts Cast_screen st =
     run_single_adb_command ''scrcpy'' format_scrcpy (Some Scrcpy_button) st"
| "click env ts Execute_command st = run_execute_command st"
| "click env ts Enter_text st = run_text_input st"
| "click env ts Start_activity st = run_start_activity st"

section \<open>The threaded variant as a transition system\<close>

text \<open>
  What can happen next in a state: the operator clicks a button (the timestamp is the
  clock's reading at that moment), a live worker thread runs to its end, or one of the
  two timers fires. A run is a sequence of such events. Clicks and timers are served by
  the UI thread, so they have no effect once it is inside a handler that never returns;
  a worker thread ends on its own.
\<close>

datatype event =
    Click operation string
  | Thread_exit nat
  | Check_queue_tick
  | Update_progress_tick

fun step :: "os_env \<Rightarrow> adbtool \<Rightarrow> event \<Rightarrow> adbtool" where
  "step env st (Click op ts) = (if ui_hung st then st else click env ts op st)"
| "step env st (Thread_exit i) = thread_exit env i st"
| "step env st Check_queue_tick = (if ui_hung st then st else check_queue st)"
| "step env st Update_progress_tick = (if ui_hung st then st else update_progress st)"

definition run_events :: "os_env \<Rightarrow> adbtool \<Rightarrow> event list \<Rightarrow> adbtool" where
  "run_events env st evs = foldl (step env) st evs"

section \<open>The command runner of the blocking variant\<close>

text \<open>
  \<^verbatim>\<open>ADBTool.py\<close>, lines 86 to 98: \<^verbatim>\<open>adb\<close> is replaced by the tool's path, the
  output box is cleared, the command is run to its end on the UI thread with
  \<^verbatim>\<open>subprocess.run\<close>, without a timeout, and the formatted text or
  \<^verbatim>\<open>"Error: " + str(e)\<close> is shown. The state is the output box, the log of command
  lines handed to the operating system, and whether the UI thread is inside a call that
  never returns.
\<close>

record adbtool_blocking =
  b_output_text :: string
  b_launched :: "string list"
  b_hung :: bool

definition run_single_adb_command_blocking ::
  "os_env \<Rightarrow> string \<Rightarrow> (string \<Rightarrow> string) \<Rightarrow> adbtool_blocking \<Rightarrow> adbtool_blocking" where
  "run_single_adb_command_blocking env cmd format_output_func st =
     (let cmd = replace cmd ''adb'' adb_path;
          st1 = st\<lparr>b_output_text := [], b_launched := b_launched st @ [cmd]\<rparr>
      in case subprocess_run env cmd of
           None \<Rightarrow> st1\<lparr>b_hung := True\<rparr>
         | Some (Inl e) \<Rightarrow> st1\<lparr>b_output_text := ''Error: '' @ str_of_exception e\<rparr>
         | Some (Inr (out, err)) \<Rightarrow>
             st1\<lparr>b_output_text := format_output_func (or_empty out @ or_empty err)\<rparr>)"

section \<open>Notions used to state the properties\<close>

text \<open>Two states show the same text in every entry field.\<close>

definition same_entries :: "adbtool \<Rightarrow> adbtool \<Rightarrow> bool" where
  "same_entries s t =
     (install_apk_entry s = install_apk_entry t
      \<and> search_apk_entry s = search_apk_entry t
      \<and> uninstall_apk_entry s = uninstall_apk_entry t
      \<and> sideload_apk_entry s = sideload_apk_entry t
      \<and> device_storage_entry s = device_storage_entry t
      \<and> push_local_entry s = push_local_entry t
      \<and> push_device_entry s = push_device_entry t
      \<and> pull_local_entry s = pull_local_entry t
      \<and> pull_device_entry s = pull_device_entry t
      \<and> text_input_entry s = text_input_entry t
      \<and> start_activity_entry s = start_activity_entry t)"


text \<open>
  The invocation strings a handler produced, read off the states before and after it:
  the command lines of the worker threads it started, followed by the command lines it
  handed to the operating system itself.
\<close>

definition invocations :: "adbtool \<Rightarrow> adbtool \<Rightarrow> string list" where
  "invocations before after =
     map w_command (drop (length (threads before)) (threads after))
     @ drop (length (launched before)) (launched after)"

text \<open>
  The formatter each operation hands to the runner, as \<^const>\<open>click\<close> and the handlers
  bind them (the screenshot handler formats the output of its second command with
  \<^const>\<open>format_pull\<close>).
\<close>

fun formatter_of :: "operation \<Rightarrow> string \<Rightarrow> string" where
  "formatter_of List_devices = format_devices"
| "formatter_of Install_apk = format_install"
| "formatter_of Search_apk = format_search"
| "formatter_of Uninstall_apk = format_uninstall"
| "formatter_of Sideload_firmware = format_sideload"
| "formatter_of Shutdown = format_shutdown"
| "formatter_of Recovery_mode = format_recovery"
| "formatter_of Reboot = format_reboot"
| "formatter_of Back = format_back"
| "formatter_of Home = format_home"
| "formatter_of Applications = format_applications"
| "formatter_of Volume_up = format_volume_up"
| "formatter_of Lock_unlock = format_power"
| "formatter_of Volume_down = format_volume_down"
| "formatter_of Settings = format_settings"
| "formatter_of Factory_test = format_factory_test"
| "formatter_of Check_storage = format_storage"
| "formatter_of Push_file = format_push"
| "formatter_of Pull_file = format_pull"
| "formatter_of Screen_shot = format_pull"
| "formatter_of Check_network = format_network"
| "formatter_of Check_activity = format_activity"
| "formatter_of Cast_screen = format_scrcpy"
| "formatter_of Execute_command = format_command"
| "formatter_of Enter_text = format_text"
| "formatter_of Start_activity = format_start_activity"

text \<open>
  What a handler decides from the entry fields before it touches the state: the
  precondition error it shows, or the command line and the button it submits to the
  runner. (The screenshot handler submits nothing; its first command line stands here.)
  The lemmas \<open>click_handler_outcome\<close> and \<open>handler_outcome_entries\<close> tie it to the
  handlers.
\<close>

fun handler_outcome ::
  "os_env \<Rightarrow> string \<Rightarrow> operation \<Rightarrow> adbtool \<Rightarrow> string + (string \<times> button option)" where
  "handler_outcome env ts List_devices st = Inr (''adb devices'', Some List_devices_button)"
| "handler_outcome env ts Install_apk st =
     (let apk_path = strip (install_apk_entry st) in
      if apk_path = [] then Inl ''Please enter a valid APK path''
      else let apk_path = expanduser env apk_path in
        if \<not> isfile env apk_path
        then Inl ''Please enter a valid APK path (file must exist and end with .apk)''
        else if \<not> suffix ''.apk'' (lower apk_path)
        then Inl ''Please enter a valid APK path (file must exist and end with .apk)''
        else Inr (''adb install '' @ [DQ] @ apk_path @ [DQ], Some Install_button))"
| "handler_outcome env ts Search_apk st =
     (let apk_name = strip (search_apk_entry st) in
      if apk_name = [] then Inl ''Please enter a valid APK/package name fragment''
      else Inr (''adb shell pm list packages | grep -i '' @ [DQ] @ apk_name @ [DQ],
                Some Search_button))"
| "handler_outcome env ts Uninstall_apk st =
     (let apk_name = strip (uninstall_apk_entry st) in
      if apk_name = [] then Inl ''Please enter a valid package name (e.g. com.example.app)''
      else if \<not> sublist ''com.'' apk_name
      then Inl ''Please enter a valid package name (e.g. com.example.app)''
      else Inr (''adb uninstall '' @ [DQ] @ apk_name @ [DQ], Some Uninstall_button))"
| "handler_outcome env ts Sideload_firmware st =
     (let firmware_path = expanduser env (strip (sideload_apk_entry st)) in
      if firmware_path = [] then Inl ''Please enter a valid firmware path (.zip)''
      else if \<not> isfile env firmware_path then Inl ''Please enter a valid firmware path (.zip)''
      else if \<not> suffix ''.zip'' (lower firmware_path)
      then Inl ''Please enter a valid firmware path (.zip)''
      else Inr (''adb sideload '' @ [DQ] @ firmware_path @ [DQ], Some Sideload_button))"
| "handler_outcome env ts Shutdown st = Inr (''adb reboot -p'', Some Shutdown_button)"
| "handler_outcome env ts Recovery_mode st = Inr (''adb reboot recovery'', Some Recovery_button)"
| "handler_outcome env ts Reboot st = Inr (''adb reboot'', Some Reboot_button)"
| "handler_outcome env ts Back st = Inr (''adb shell input keyevent 4'', Some Back_button)"
| "handler_outcome env ts Home st = Inr (''adb shell input keyevent 3'', Some Home_button)"
| "handler_outcome env ts Applications st =
     Inr (''adb shell input keyevent 187'', Some Apps_button)"
| "handler_outcome env ts Volume_up st =
     Inr (''adb shell input keyevent 24'', Some Vol_up_button)"
| "handler_outcome env ts Lock_unlock st =
     Inr (''adb shell input keyevent 26'', Some Power_button)"
| "handler_outcome env ts Volume_down st =
     Inr (''adb shell input keyevent 25'', Some Vol_down_button)"
| "handler_outcome env ts Settings st =
     Inr (''adb shell am start -n com.android.settings/.Settings'', Some Settings_button)"
| "handler_outcome env ts Factory_test st =
     Inr (''adb shell am start -n com.ubx.factorykit/.Framework.Framework'',
          Some Factory_button)"
| "handler_outcome env ts Check_storage st =
     (let path = strip (device_storage_entry st) in
      if path = []
      then Inl ''Please enter a valid device storage path (starting with /sdcard/)''
      else if \<not> prefix ''/sdcard/'' path
      then Inl ''Please enter a valid device storage path (starting with /sdcard/)''
      else Inr (''adb shell ls -l '' @ [DQ] @ path @ [DQ], Some Storage_button))"
| "handler_outcome env ts Push_file st =
     (let local_path = expanduser env (strip (push_local_entry st));
          device_path = strip (push_device_entry st) in
      if local_path = [] then Inl ''Please select a valid local file''
      else if \<not> path_exists env local_path then Inl ''Please select a valid local file''
      else if device_path = []
      then Inl ''Please enter a valid device path (starting with /sdcard/)''
      else if \<not> prefix ''/sdcard/'' device_path
      then Inl ''Please enter a valid device path (starting with /sdcard/)''
      else Inr (''adb push '' @ [DQ] @ local_path @ [DQ] @ '' '' @ [DQ] @ device_path @ [DQ],
                Some Push_button))"
| "handler_outcome env ts Pull_file st =
     (let device_path = strip (pull_device_entry st);
          local_path = expanduser env (strip (pull_local_entry st)) in
      if device_path = []
      then Inl ''Please enter a valid device path (starting with /sdcard/)''
      else if \<not> prefix ''/sdcard/'' device_path
      then Inl ''Please enter a valid device path (starting with /sdcard/)''
      else if local_path = [] then Inl ''Please select a valid local save path''
      else Inr (''adb pull '' @ [DQ] @ device_path @ [DQ] @ '' '' @ [DQ] @ local_path @ [DQ],
                Some Pull_button))"
| "handler_outcome env ts Screen_shot st = Inr (fst (screenshot_commands env ts), None)"
| "handler_outcome env ts Check_network st = Inr (''adb shell ifconfig'', Some Network_button)"
| "handler_outcome env ts Check_activity st =
     Inr (''adb shell dumpsys window | grep mCurrentFocus'', Some Activity_button)"
| "handler_outcome env ts Cast_screen st = Inr (''scrcpy'', Some Scrcpy_button)"
| "handler_outcome env ts Execute_command st =
     (let cmd = strip (text_input_entry st) in
      if cmd = [] then Inl ''Please enter a valid command''
      else Inr (cmd, Some Command_button))"
| "handler_outcome env ts Enter_text st =
     (let text = strip (text_input_entry st) in
      if text = [] then Inl ''Please enter some text''
      else Inr (''adb shell input text '' @ [DQ] @ replace text [DQ] [BACKSLASH, DQ] @ [DQ],
                Some Text_button))"
| "handler_outcome env ts Start_activity st =
     (let activity = strip (start_activity_entry st) in
      if activity = []
      then Inl ''Please enter a valid Package/Activity (e.g. com.example/.MainActivity)''
      else Inr (''adb shell am start -n '' @ [DQ] @ activity @ [DQ], Some Activity_button))"

text \<open>
  A text of ASCII characters only: no byte has its eighth bit set. On such texts
  \<^const>\<open>strip\<close>, \<^const>\<open>lower\<close> and \<^const>\<open>splitlines\<close> are Python's.
\<close>

definition is_ascii :: "string \<Rightarrow> bool" where
  "is_ascii s = list_all (\<lambda>c. \<not> digit7 c) s"

section \<open>Sample environments\<close>

text \<open>
  Concrete environments for the closed instances below: the listed files exist, the home
  directory is \<^verbatim>\<open>/Users/patrickxu\<close>, and every command starts a process that behaves
  as given and ends on its own.
\<close>

definition sample_expanduser :: "string \<Rightarrow> string" where
  "sample_expanduser p = (if prefix ''~'' p then ''/Users/patrickxu'' @ drop 1 p else p)"

definition sample_env ::
  "string list \<Rightarrow> (nat option \<Rightarrow> py_exception + (string option \<times> string option)) \<Rightarrow> os_env" where
  "sample_env files behaviour =
     \<lparr>popen = (\<lambda>cmd. Inr (Process behaviour True)),
      isfile = (\<lambda>p. p \<in> set files),
      path_exists = (\<lambda>p. p \<in> set files),
      expanduser = sample_expanduser\<rparr>"

text \<open>
  A process that prints the given text and ends, and one that outlives every timeout it
  is awaited with.
\<close>

definition prints :: "string \<Rightarrow> nat option \<Rightarrow> py_exception + (string option \<times> string option)" where
  "prints out t = Inr (Some out, Some [])"

definition hangs :: "nat option \<Rightarrow> py_exception + (string option \<times> string option)" where
  "hangs t = (case t of
                None \<Rightarrow> Inr (Some [], Some [])
              | Some n \<Rightarrow> Inl (TimeoutExpired (''Command timed out after '' @ str_of_nat n
                                                 @ '' seconds'')))"


section \<open>Facts about the text primitives\<close>

lemma lower_char_not_upper:
  "\<not> (65 \<le> (of_char (lower_char c) :: nat) \<and> (of_char (lower_char c) :: nat) \<le> 90)"
  by (cases c) (simp add: lower_char_def)

lemma lower_has_no_upper_marker: "\<not> sublist ''ERROR'' (lower output)"
proof
  assume "sublist ''ERROR'' (lower output)"
  then have "set ''ERROR'' \<subseteq> set (lower output)" by (rule set_mono_sublist)
  then have "CHR ''E'' \<in> lower_char ` set output" by (simp add: lower_def)
  then obtain c where "lower_char c = CHR ''E''" by auto
  with lower_char_not_upper [of c] show False by simp
qed

lemma strip_empty_iff: "strip s = [] \<longleftrightarrow> list_all isspace s"
proof -
  have "dropWhile isspace (rev (dropWhile isspace s)) = [] \<longleftrightarrow> dropWhile isspace s = []"
  proof
    assume a: "dropWhile isspace (rev (dropWhile isspace s)) = []"
    show "dropWhile isspace s = []"
    proof (rule ccontr)
      assume n: "dropWhile isspace s \<noteq> []"
      then have "\<not> isspace (hd (dropWhile isspace s))" by (rule hd_dropWhile)
      moreover from n have "hd (dropWhile isspace s) \<in> set (rev (dropWhile isspace s))" by simp
      moreover from a have "\<forall>c \<in> set (rev (dropWhile isspace s)). isspace c"
        by (simp add: dropWhile_eq_Nil_conv)
      ultimately show False by blast
    qed
  next
    assume "dropWhile isspace s = []"
    then show "dropWhile isspace (rev (dropWhile isspace s)) = []"
      by (simp only: rev.simps dropWhile.simps)
  qed
  moreover have "strip s = [] \<longleftrightarrow> dropWhile isspace (rev (dropWhile isspace s)) = []"
    by (simp only: strip_def rev_is_Nil_conv)
  moreover have "dropWhile isspace s = [] \<longleftrightarrow> list_all isspace s"
    by (simp only: dropWhile_eq_Nil_conv list_all_iff)
  ultimately show ?thesis by blast
qed

lemma lower_char_isspace: "isspace (lower_char c) = isspace c"
  by (cases c) (auto simp add: lower_char_def isspace_def)

lemma marker_not_blank:
  assumes "sublist ''no devices'' (lower output)"
  shows "strip output \<noteq> []"
proof
  assume "strip output = []"
  then have all: "list_all isspace output" by (simp add: strip_empty_iff)
  from assms have "set ''no devices'' \<subseteq> set (lower output)" by (rule set_mono_sublist)
  then have "CHR ''n'' \<in> lower_char ` set output" by (simp add: lower_def)
  then obtain c where c: "c \<in> set output" "lower_char c = CHR ''n''" by auto
  from all c(1) have "isspace c" by (simp add: list_all_iff)
  then have "isspace (lower_char c)" by (simp add: lower_char_isspace)
  with c(2) show False by (simp add: isspace_def)
qed

lemma Success_lower:
  assumes "sublist ''Success'' output"
  shows "sublist ''success'' (lower output)"
proof -
  from assms have "sublist (map lower_char ''Success'') (map lower_char output)"
    by (rule map_mono_sublist)
  then show ?thesis by (simp add: lower_def lower_char_def)
qed

section \<open>The list-devices scenarios\<close>

text \<open>
  Claim C4 has two scenarios. The first holds as stated. The second says that
  \<^verbatim>\<open>format_devices\<close> on the header line alone returns the fixed
  \<^verbatim>\<open>No devices connected!\<close> message, the text the other formatters return for a
  missing device. It returns a longer text: that message followed by an empty line and the
  footer naming the command.
\<close>

theorem format_devices_not_the_bare_message:
  "format_devices ''List of devices attached'' \<noteq> ''No devices connected!''"
  by (simp add: format_devices_def splitlines_def is_linebreak_def strip_def isspace_def
      sublist_code)

text \<open>
  Claim C4, as amended. \<^verbatim>\<open>format_devices\<close> on the header line followed by the line
  \<^verbatim>\<open>ABC123<TAB>device\<close> returns a text that contains
  \<^verbatim>\<open>ABC123 -> Connected\<close> (with the arrow U+2192): the whole result is that line and
  the footer naming the command. On the header line alone it returns
  \<^verbatim>\<open>No devices connected!\<close> followed by an empty line and the same footer.
\<close>

theorem format_devices_scenarios:
  "format_devices (''List of devices attached'' @ [NL] @ ''ABC123'' @ [TAB] @ ''device'')
     = ''ABC123 '' @ ARROW @ '' Connected'' @ [NL, NL]
       @ ''Command run: '' @ [DQ] @ ''adb devices'' @ [DQ]
   \<and> sublist (''ABC123 '' @ ARROW @ '' Connected'')
        (format_devices (''List of devices attached'' @ [NL] @ ''ABC123'' @ [TAB] @ ''device''))
   \<and> format_devices ''List of devices attached''
     = ''No devices connected!'' @ [NL, NL]
       @ ''Command run: '' @ [DQ] @ ''adb devices'' @ [DQ]"
  by (simp add: format_devices_def splitlines_def is_linebreak_def strip_def isspace_def
      sublist_code)

section \<open>The screen-mirroring formatter\<close>

text \<open>
  Claim C9. \<^verbatim>\<open>format_scrcpy\<close> returns \<^verbatim>\<open>CASTING started in the BACKGROUND\<close>
  for every text: its guard looks for the upper-case marker \<^verbatim>\<open>ERROR\<close> in the lowered
  text, where no upper-case letter is left, so the \<^verbatim>\<open>No devices connected!\<close> branch
  is never taken.
\<close>

theorem format_scrcpy_constant:
  "format_scrcpy output = ''CASTING started in the BACKGROUND''"
  by (simp add: format_scrcpy_def lower_has_no_upper_marker)

section \<open>The no-device marker\<close>

text \<open>
  Claim C2 says that every formatter tests the marker \<^verbatim>\<open>no devices\<close> (in the lowered
  text) before anything else and answers \<^verbatim>\<open>No devices connected!\<close>. The code does so
  in twenty formatters; \<^verbatim>\<open>format_search\<close> tests for a blank text first, which a text
  with the marker never is. \<^verbatim>\<open>format_install\<close> and \<^verbatim>\<open>format_uninstall\<close> look for
  \<^verbatim>\<open>success\<close> first, and \<^verbatim>\<open>format_devices\<close> and \<^verbatim>\<open>format_sideload\<close> do not
  test the marker at all: the instances below show texts with the marker on which these
  four return something else.
\<close>

theorem no_devices_marker_not_first:
  "sublist ''no devices'' (lower ''error: no devices/emulators found'')
   \<and> format_sideload ''error: no devices/emulators found'' \<noteq> ''No devices connected!''
   \<and> sublist ''no devices''
        (lower (''List of devices attached'' @ [NL] @ ''error: no devices/emulators found''))
   \<and> format_devices (''List of devices attached'' @ [NL] @ ''error: no devices/emulators found'')
     = ''error: no devices/emulators found'' @ [NL, NL]
       @ ''Command run: '' @ [DQ] @ ''adb devices'' @ [DQ]
   \<and> sublist ''no devices'' (lower ''Success; error: no devices/emulators found'')
   \<and> format_install ''Success; error: no devices/emulators found'' \<noteq> ''No devices connected!''
   \<and> format_uninstall ''Success; error: no devices/emulators found'' \<noteq> ''No devices connected!''"
  by (simp add: lower_def lower_char_def sublist_code format_sideload_def format_devices_def
      format_install_def format_uninstall_def splitlines_def is_linebreak_def
      strip_def isspace_def)

text \<open>
  Claim C2, as amended. For every text that contains \<^verbatim>\<open>no devices\<close> once lowered, each
  of the twenty-one formatters listed returns exactly \<^verbatim>\<open>No devices connected!\<close>.
  \<^verbatim>\<open>format_install\<close> and \<^verbatim>\<open>format_uninstall\<close> return it when the lowered text does
  not contain \<^verbatim>\<open>success\<close> as well, and only then: when it does, they return their
  success messages, which are other texts.
\<close>

theorem no_devices_marker_first:
  assumes "sublist ''no devices'' (lower output)"
  shows "format_search output = ''No devices connected!''
       \<and> format_shutdown output = ''No devices connected!''
       \<and> format_recovery output = ''No devices connected!''
       \<and> format_reboot output = ''No devices connected!''
       \<and> format_back output = ''No devices connected!''
       \<and> format_home output = ''No devices connected!''
       \<and> format_applications output = ''No devices connected!''
       \<and> format_volume_up output = ''No devices connected!''
       \<and> format_power output = ''No devices connected!''
       \<and> format_volume_down output = ''No devices connected!''
       \<and> format_settings output = ''No devices connected!''
       \<and> format_factory_test output = ''No devices connected!''
       \<and> format_push output = ''No devices connected!''
       \<and> format_storage output = ''No devices connected!''
       \<and> format_pull output = ''No devices connected!''
       \<and> format_screenshot output = ''No devices connected!''
       \<and> format_network output = ''No devices connected!''
       \<and> format_activity output = ''No devices connected!''
       \<and> format_text output = ''No devices connected!''
       \<and> format_command output = ''No devices connected!''
       \<and> format_start_activity output = ''No devices connected!''
       \<and> (\<not> sublist ''success'' (lower output) \<longrightarrow>
            format_install output = ''No devices connected!''
            \<and> format_uninstall output = ''No devices connected!'')
       \<and> (sublist ''success'' (lower output) \<longrightarrow>
            format_install output
              = ''Installation Successful!'' @ [NL, NL]
                @ ''Command run: '' @ [DQ] @ ''adb install <APK_PATH>'' @ [DQ]
            \<and> format_install output \<noteq> ''No devices connected!''
            \<and> format_uninstall output = ''Uninstallation Successful!''
            \<and> format_uninstall output \<noteq> ''No devices connected!'')"
proof -
  have s: "\<not> sublist ''success'' (lower output) \<Longrightarrow> \<not> sublist ''Success'' output"
    using Success_lower by blast
  from assms marker_not_blank [OF assms] s show ?thesis
    by (simp add: format_search_def format_shutdown_def format_recovery_def format_reboot_def
        format_back_def format_home_def format_applications_def format_volume_up_def
        format_power_def format_volume_down_def format_settings_def format_factory_test_def
        format_push_def format_storage_def format_pull_def format_screenshot_def
        format_network_def format_activity_def format_text_def format_command_def
        format_start_activity_def format_install_def format_uninstall_def)
qed

theorem no_devices_marker_first_witness:
  "sublist ''no devices'' (lower ''error: no devices/emulators found'')
   \<and> \<not> sublist ''success'' (lower ''error: no devices/emulators found'')
   \<and> format_search ''error: no devices/emulators found'' = ''No devices connected!''
   \<and> format_pull ''error: no devices/emulators found'' = ''No devices connected!''
   \<and> format_install ''error: no devices/emulators found'' = ''No devices connected!''
   \<and> format_uninstall ''error: no devices/emulators found'' = ''No devices connected!''
   \<and> sublist ''no devices'' (lower ''Success; error: no devices/emulators found'')
   \<and> sublist ''success'' (lower ''Success; error: no devices/emulators found'')
   \<and> format_install ''Success; error: no devices/emulators found''
       = ''Installation Successful!'' @ [NL, NL]
         @ ''Command run: '' @ [DQ] @ ''adb install <APK_PATH>'' @ [DQ]
   \<and> format_uninstall ''Success; error: no devices/emulators found''
       = ''Uninstallation Successful!''"
proof -
  have m: "sublist ''no devices'' (lower ''error: no devices/emulators found'')"
    by (simp add: lower_def lower_char_def sublist_code)
  have n: "\<not> sublist ''success'' (lower ''error: no devices/emulators found'')"
    by (simp add: lower_def lower_char_def sublist_code)
  have m2: "sublist ''no devices'' (lower ''Success; error: no devices/emulators found'')"
    by (simp add: lower_def lower_char_def sublist_code)
  have s2: "sublist ''success'' (lower ''Success; error: no devices/emulators found'')"
    by (simp add: lower_def lower_char_def sublist_code)
  from no_devices_marker_first [OF m] n
  have a: "format_search ''error: no devices/emulators found'' = ''No devices connected!''
     \<and> format_pull ''error: no devices/emulators found'' = ''No devices connected!''
     \<and> format_install ''error: no devices/emulators found'' = ''No devices connected!''
     \<and> format_uninstall ''error: no devices/emulators found'' = ''No devices connected!''"
    by blast
  from no_devices_marker_first [OF m2] s2
  have b: "format_install ''Success; error: no devices/emulators found''
       = ''Installation Successful!'' @ [NL, NL]
         @ ''Command run: '' @ [DQ] @ ''adb install <APK_PATH>'' @ [DQ]
     \<and> format_uninstall ''Success; error: no devices/emulators found''
       = ''Uninstallation Successful!''"
    by blast
  from m n a m2 s2 b show ?thesis by (intro conjI) (elim conjE; assumption)+
qed

section \<open>The replacement of the tool name\<close>

text \<open>
  Claim C8. Before a command line is run, every occurrence of \<^verbatim>\<open>adb\<close> in it becomes
  the tool's path, also inside a parameter the operator typed. With the package name
  \<^verbatim>\<open>com.adbdemo.app\<close> in the uninstall field, the handler builds
  \<^verbatim>\<open>adb uninstall "com.adbdemo.app"\<close>, and the command line the worker hands to the
  operating system has the path in place of the command word and inside the package
  name. The runner of the blocking variant does the same to the same command line.
\<close>

theorem replace_adb_everywhere:
  "threads (run_uninstall_apk ((init env)\<lparr>uninstall_apk_entry := ''com.adbdemo.app''\<rparr>))
     = [\<lparr>w_command = ''adb uninstall '' @ [DQ] @ ''com.adbdemo.app'' @ [DQ],
         w_format_output_func = format_uninstall, w_button = Some Uninstall_button\<rparr>]
   \<and> launched (thread_exit env 0
        (run_uninstall_apk ((init env)\<lparr>uninstall_apk_entry := ''com.adbdemo.app''\<rparr>)))
     = [adb_path @ '' uninstall '' @ [DQ] @ ''com.'' @ adb_path @ ''demo.app'' @ [DQ]]
   \<and> b_launched (run_single_adb_command_blocking env
        (''adb uninstall '' @ [DQ] @ ''com.adbdemo.app'' @ [DQ]) format_uninstall_blocking st)
     = b_launched st @ [adb_path @ '' uninstall '' @ [DQ] @ ''com.'' @ adb_path @ ''demo.app'' @ [DQ]]"
  by (simp add: run_uninstall_apk_def init_def strip_def isspace_def sublist_code
      run_single_adb_command_def thread_exit_def thread_target_def thread_try_def
      run_single_adb_command_blocking_def adb_path_def Let_def
      split: option.splits sum.splits prod.splits)

section \<open>The two variants format alike\<close>

text \<open>
  Claim C10. Each of the twenty-five formatters that both files define, from
  \<^verbatim>\<open>format_devices\<close> to \<^verbatim>\<open>format_start_activity\<close>, is the same function of the
  captured text in \<^verbatim>\<open>ADBTool.py\<close> and in \<^verbatim>\<open>ADBTool_multithread.py\<close>.
\<close>

theorem formatters_blocking_eq_threaded:
  "format_devices_blocking = format_devices \<and>
   format_install_blocking = format_install \<and>
   format_search_blocking = format_search \<and>
   format_uninstall_blocking = format_uninstall \<and>
   format_sideload_blocking = format_sideload \<and>
   format_shutdown_blocking = format_shutdown \<and>
   format_recovery_blocking = format_recovery \<and>
   format_reboot_blocking = format_reboot \<and>
   format_back_blocking = format_back \<and>
   format_home_blocking = format_home \<and>
   format_applications_blocking = format_applications \<and>
   format_volume_up_blocking = format_volume_up \<and>
   format_power_blocking = format_power \<and>
   format_volume_down_blocking = format_volume_down \<and>
   format_settings_blocking = format_settings \<and>
   format_factory_test_blocking = format_factory_test \<and>
   format_push_blocking = format_push \<and>
   format_storage_blocking = format_storage \<and>
   format_pull_blocking = format_pull \<and>
   format_screenshot_blocking = format_screenshot \<and>
   format_network_blocking = format_network \<and>
   format_activity_blocking = format_activity \<and>
   format_text_blocking = format_text \<and>
   format_command_blocking = format_command \<and>
   format_start_activity_blocking = format_start_activity"
  by (intro conjI ext)
     (simp_all only:
      format_devices_blocking_def format_devices_def
      format_install_blocking_def format_install_def
      format_search_blocking_def format_search_def
      format_uninstall_blocking_def format_uninstall_def
      format_sideload_blocking_def format_sideload_def
      format_shutdown_blocking_def format_shutdown_def
      format_recovery_blocking_def format_recovery_def
      format_reboot_blocking_def format_reboot_def
      format_back_blocking_def format_back_def
      format_home_blocking_def format_home_def
      format_applications_blocking_def format_applications_def
      format_volume_up_blocking_def format_volume_up_def
      format_power_blocking_def format_power_def
      format_volume_down_blocking_def format_volume_down_def
      format_settings_blocking_def format_settings_def
      format_factory_test_blocking_def format_factory_test_def
      format_push_blocking_def format_push_def
      format_storage_blocking_def format_storage_def
      format_pull_blocking_def format_pull_def
      format_screenshot_blocking_def format_screenshot_def
      format_network_blocking_def format_network_def
      format_activity_blocking_def format_activity_def
      format_text_blocking_def format_text_def
      format_command_blocking_def format_command_def
      format_start_activity_blocking_def format_start_activity_def)

section \<open>The worker turns every failure into text\<close>

text \<open>
  Claim C3. For every submitted command other than \<^verbatim>\<open>scrcpy\<close>, the worker hands one
  command line to the operating system (the command with \<^verbatim>\<open>adb\<close> replaced), waits
  for the process with the timeout 300, and ends by putting exactly one text, with the
  button, on the queue and clearing the flag; nothing else of the state changes and
  nothing is launched a second time. When starting the process raises, or waiting for it
  raises (the timeout or any other exception), the text is \<^verbatim>\<open>Error: \<close> followed by the
  exception's text; otherwise it is the formatter's text of the captured output. In no
  case does an exception leave the worker: its result is always this state.
\<close>

theorem worker_failures_become_text:
  assumes "w_command w \<noteq> ''scrcpy''"
  shows "\<exists>text.
           thread_target env w st
             = st\<lparr>launched := launched st @ [replace (w_command w) ''adb'' adb_path],
                  result_queue := result_queue st @ [(text, w_button w)],
                  command_running := False\<rparr>
           \<and> (\<forall>e. popen env (replace (w_command w) ''adb'' adb_path) = Inl e
                  \<longrightarrow> text = ''Error: '' @ str_of_exception e)
           \<and> (\<forall>p e. popen env (replace (w_command w) ''adb'' adb_path) = Inr p
                     \<and> communicate p (Some 300) = Inl e
                  \<longrightarrow> text = ''Error: '' @ str_of_exception e)
           \<and> (\<forall>p out err. popen env (replace (w_command w) ''adb'' adb_path) = Inr p
                     \<and> communicate p (Some 300) = Inr (out, err)
                  \<longrightarrow> text = w_format_output_func w (or_empty out @ or_empty err))"
  using assms
  by (auto simp add: thread_target_def thread_try_def Let_def split: sum.splits prod.splits)

theorem worker_failures_become_text_witness:
  "w_command \<lparr>w_command = ''adb install '' @ [DQ] @ ''/tmp/app.apk'' @ [DQ],
              w_format_output_func = format_install, w_button = Some Install_button\<rparr>
     \<noteq> ''scrcpy''
   \<and> result_queue (thread_target (sample_env [] hangs)
        \<lparr>w_command = ''adb install '' @ [DQ] @ ''/tmp/app.apk'' @ [DQ],
         w_format_output_func = format_install, w_button = Some Install_button\<rparr>
        ((init (sample_env [] hangs))\<lparr>command_running := True\<rparr>))
     = [(''Error: Command timed out after 300 seconds'', Some Install_button)]
   \<and> command_running (thread_target (sample_env [] hangs)
        \<lparr>w_command = ''adb install '' @ [DQ] @ ''/tmp/app.apk'' @ [DQ],
         w_format_output_func = format_install, w_button = Some Install_button\<rparr>
        ((init (sample_env [] hangs))\<lparr>command_running := True\<rparr>)) = False
   \<and> launched (thread_target (sample_env [] hangs)
        \<lparr>w_command = ''adb install '' @ [DQ] @ ''/tmp/app.apk'' @ [DQ],
         w_format_output_func = format_install, w_button = Some Install_button\<rparr>
        ((init (sample_env [] hangs))\<lparr>command_running := True\<rparr>))
     = [adb_path @ '' install '' @ [DQ] @ ''/tmp/app.apk'' @ [DQ]]"
proof -
  let ?w = "\<lparr>w_command = ''adb install '' @ [DQ] @ ''/tmp/app.apk'' @ [DQ],
              w_format_output_func = format_install, w_button = Some Install_button\<rparr>"
  let ?env = "sample_env [] hangs"
  let ?st = "(init ?env)\<lparr>command_running := True\<rparr>"
  have ne: "w_command ?w \<noteq> ''scrcpy''" by simp
  have cmd: "replace (w_command ?w) ''adb'' adb_path
               = adb_path @ '' install '' @ [DQ] @ ''/tmp/app.apk'' @ [DQ]"
    by (simp add: adb_path_def)
  have run: "popen ?env (replace (w_command ?w) ''adb'' adb_path) = Inr (Process hangs True)
             \<and> communicate (Process hangs True) (Some 300)
                 = Inl (TimeoutExpired ''Command timed out after 300 seconds'')"
    by (simp add: sample_env_def hangs_def str_of_nat.simps)
  from worker_failures_become_text [OF ne, of ?env ?st] obtain shown where
    t: "thread_target ?env ?w ?st
          = ?st\<lparr>launched := launched ?st @ [replace (w_command ?w) ''adb'' adb_path],
                 result_queue := result_queue ?st @ [(shown, w_button ?w)],
                 command_running := False\<rparr>"
    and e: "\<forall>p e. popen ?env (replace (w_command ?w) ''adb'' adb_path) = Inr p
                     \<and> communicate p (Some 300) = Inl e
                  \<longrightarrow> shown = ''Error: '' @ str_of_exception e"
    by blast
  from e run have "shown = ''Error: Command timed out after 300 seconds''" by fastforce
  with t cmd ne show ?thesis by (simp add: init_def Let_def)
qed

section \<open>Precondition errors\<close>

text \<open>
  Claim C6 says that an install path that does not name an existing file ending in
  \<^verbatim>\<open>.apk\<close> is refused before any command is built. The handler compares the
  extension of the lowered path: the existing file \<^verbatim>\<open>/tmp/APP.APK\<close> does not end in
  \<^verbatim>\<open>.apk\<close>, and for it the handler builds the command line, sets the flag and starts
  the worker.
\<close>

theorem upper_case_extension_accepted:
  "isfile (sample_env [''/tmp/APP.APK''] (prints [])) ''/tmp/APP.APK''
   \<and> \<not> suffix ''.apk'' ''/tmp/APP.APK''
   \<and> map w_command (threads (run_install_apk (sample_env [''/tmp/APP.APK''] (prints []))
        ((init (sample_env [''/tmp/APP.APK''] (prints [])))\<lparr>install_apk_entry := ''/tmp/APP.APK''\<rparr>)))
     = [''adb install '' @ [DQ] @ ''/tmp/APP.APK'' @ [DQ]]
   \<and> command_running (run_install_apk (sample_env [''/tmp/APP.APK''] (prints []))
        ((init (sample_env [''/tmp/APP.APK''] (prints [])))\<lparr>install_apk_entry := ''/tmp/APP.APK''\<rparr>))
   \<and> output_text (run_install_apk (sample_env [''/tmp/APP.APK''] (prints []))
        ((init (sample_env [''/tmp/APP.APK''] (prints [])))\<lparr>install_apk_entry := ''/tmp/APP.APK''\<rparr>))
     = ''Running command... Please wait.'' @ [NL]"
  by (simp add: run_install_apk_def init_def Let_def sample_env_def sample_expanduser_def
      strip_def isspace_def lower_def lower_char_def suffix_to_prefix run_single_adb_command_def)

text \<open>Each handler, on an input its check refuses, only shows an error.\<close>

lemma run_install_apk_rejects:
  assumes "strip (install_apk_entry st) = []
           \<or> \<not> isfile env (expanduser env (strip (install_apk_entry st)))
           \<or> \<not> suffix ''.apk'' (lower (expanduser env (strip (install_apk_entry st))))"
  shows "\<exists>msg. run_install_apk env st = show_error msg st"
proof (cases "strip (install_apk_entry st) = []")
  case True
  then have "run_install_apk env st = show_error ''Please enter a valid APK path'' st"
    by (simp add: run_install_apk_def)
  then show ?thesis ..
next
  case False
  with assms have "run_install_apk env st
    = show_error ''Please enter a valid APK path (file must exist and end with .apk)'' st"
    by (auto simp add: run_install_apk_def Let_def)
  then show ?thesis ..
qed

lemma run_adb_push_rejects:
  assumes "\<not> prefix ''/sdcard/'' (strip (push_device_entry st))"
  shows "\<exists>msg. run_adb_push env st = show_error msg st"
proof -
  have "run_adb_push env st = show_error ''Please select a valid local file'' st
        \<or> run_adb_push env st
            = show_error ''Please enter a valid device path (starting with /sdcard/)'' st"
    using assms by (simp add: run_adb_push_def Let_def)
  then show ?thesis by blast
qed

lemma run_adb_pull_rejects:
  assumes "\<not> prefix ''/sdcard/'' (strip (pull_device_entry st))"
  shows "\<exists>msg. run_adb_pull env st = show_error msg st"
proof -
  have "run_adb_pull env st
          = show_error ''Please enter a valid device path (starting with /sdcard/)'' st"
    using assms by (simp add: run_adb_pull_def Let_def)
  then show ?thesis ..
qed

lemma run_check_storage_rejects:
  assumes "\<not> prefix ''/sdcard/'' (strip (device_storage_entry st))"
  shows "\<exists>msg. run_check_storage st = show_error msg st"
proof -
  have "run_check_storage st
          = show_error ''Please enter a valid device storage path (starting with /sdcard/)'' st"
    using assms by (simp add: run_check_storage_def Let_def)
  then show ?thesis ..
qed

text \<open>
  Claim C6, as amended. The paths are the texts of the entry fields with the blanks at
  both ends removed. The statement is for entry texts in ASCII (for the install path,
  with an ASCII home-expanded form as well), where the blanks and the lowering of the
  model are Python's. When the install path is empty, or its home-expanded form is not an
  existing file or does not end in \<^verbatim>\<open>.apk\<close> once lowered, and when the device path of
  push, pull or the storage check does not start with \<^verbatim>\<open>/sdcard/\<close>, the handler
  only replaces the text of the output box by a line that starts with \<^verbatim>\<open>Error: \<close>:
  no command line is built, no worker and no process is started, and the flag, the queue
  and the buttons are as before.
\<close>

theorem precondition_errors:
  "((is_ascii (install_apk_entry st)
       \<and> is_ascii (expanduser env (strip (install_apk_entry st)))
       \<and> (strip (install_apk_entry st) = []
            \<or> \<not> isfile env (expanduser env (strip (install_apk_entry st)))
            \<or> \<not> suffix ''.apk'' (lower (expanduser env (strip (install_apk_entry st))))))
      \<longrightarrow> (\<exists>msg. run_install_apk env st = st\<lparr>output_text := ''Error: '' @ msg @ [NL]\<rparr>))
   \<and> ((is_ascii (push_device_entry st) \<and> \<not> prefix ''/sdcard/'' (strip (push_device_entry st)))
      \<longrightarrow> (\<exists>msg. run_adb_push env st = st\<lparr>output_text := ''Error: '' @ msg @ [NL]\<rparr>))
   \<and> ((is_ascii (pull_device_entry st) \<and> \<not> prefix ''/sdcard/'' (strip (pull_device_entry st)))
      \<longrightarrow> (\<exists>msg. run_adb_pull env st = st\<lparr>output_text := ''Error: '' @ msg @ [NL]\<rparr>))
   \<and> ((is_ascii (device_storage_entry st)
        \<and> \<not> prefix ''/sdcard/'' (strip (device_storage_entry st)))
      \<longrightarrow> (\<exists>msg. run_check_storage st = st\<lparr>output_text := ''Error: '' @ msg @ [NL]\<rparr>))"
  using run_install_apk_rejects [of st env] run_adb_push_rejects [of st env]
    run_adb_pull_rejects [of st env] run_check_storage_rejects [of st]
  unfolding show_error_def by blast

theorem precondition_errors_witness:
  "is_ascii '' /tmp/notes.txt ''
   \<and> is_ascii (expanduser (sample_env [''/tmp/notes.txt''] (prints []))
         (strip '' /tmp/notes.txt ''))
   \<and> \<not> suffix ''.apk'' (lower (expanduser (sample_env [''/tmp/notes.txt''] (prints []))
         (strip '' /tmp/notes.txt '')))
   \<and> threads (run_install_apk (sample_env [''/tmp/notes.txt''] (prints []))
        ((init (sample_env [''/tmp/notes.txt''] (prints [])))
           \<lparr>install_apk_entry := '' /tmp/notes.txt ''\<rparr>)) = []
   \<and> is_ascii ''/data/local/tmp''
   \<and> \<not> prefix ''/sdcard/'' (strip ''/data/local/tmp'')
   \<and> threads (run_adb_push (sample_env [''/tmp/notes.txt''] (prints []))
        ((init (sample_env [''/tmp/notes.txt''] (prints [])))
           \<lparr>push_local_entry := ''/tmp/notes.txt'',
            push_device_entry := ''/data/local/tmp''\<rparr>)) = []
   \<and> command_running (run_adb_pull (sample_env [''/tmp/notes.txt''] (prints []))
        ((init (sample_env [''/tmp/notes.txt''] (prints [])))
           \<lparr>pull_device_entry := ''/data/local/tmp''\<rparr>)) = False
   \<and> launched (run_check_storage
        ((init (sample_env [''/tmp/notes.txt''] (prints [])))
           \<lparr>device_storage_entry := ''/data/local/tmp''\<rparr>)) = []"
proof -
  let ?env = "sample_env [''/tmp/notes.txt''] (prints [])"
  let ?i = "(init ?env)\<lparr>install_apk_entry := '' /tmp/notes.txt ''\<rparr>"
  let ?p = "(init ?env)\<lparr>push_local_entry := ''/tmp/notes.txt'',
                         push_device_entry := ''/data/local/tmp''\<rparr>"
  let ?l = "(init ?env)\<lparr>pull_device_entry := ''/data/local/tmp''\<rparr>"
  let ?s = "(init ?env)\<lparr>device_storage_entry := ''/data/local/tmp''\<rparr>"
  have a0: "is_ascii '' /tmp/notes.txt ''" by (simp add: is_ascii_def)
  have a1: "is_ascii (expanduser ?env (strip '' /tmp/notes.txt ''))"
    by (simp add: is_ascii_def sample_env_def sample_expanduser_def strip_def isspace_def)
  have a: "\<not> suffix ''.apk'' (lower (expanduser ?env (strip '' /tmp/notes.txt '')))"
    by (simp add: sample_env_def sample_expanduser_def strip_def isspace_def lower_def
        lower_char_def suffix_to_prefix)
  have b0: "is_ascii ''/data/local/tmp''" by (simp add: is_ascii_def)
  have b: "\<not> prefix ''/sdcard/'' (strip ''/data/local/tmp'')"
    by (simp add: strip_def isspace_def)
  have ei: "install_apk_entry ?i = '' /tmp/notes.txt ''" by simp
  have ep: "push_device_entry ?p = ''/data/local/tmp''" by simp
  have el: "pull_device_entry ?l = ''/data/local/tmp''" by simp
  have es: "device_storage_entry ?s = ''/data/local/tmp''" by simp
  from precondition_errors [of ?i ?env] a0 a1 a ei obtain m1 where
    i: "run_install_apk ?env ?i = ?i\<lparr>output_text := ''Error: '' @ m1 @ [NL]\<rparr>"
    by (simp only:) blast
  from precondition_errors [of ?p ?env] b0 b ep obtain m2 where
    p: "run_adb_push ?env ?p = ?p\<lparr>output_text := ''Error: '' @ m2 @ [NL]\<rparr>"
    by (simp only:) blast
  from precondition_errors [of ?l ?env] b0 b el obtain m3 where
    l: "run_adb_pull ?env ?l = ?l\<lparr>output_text := ''Error: '' @ m3 @ [NL]\<rparr>"
    by (simp only:) blast
  from precondition_errors [of ?s ?env] b0 b es obtain m4 where
    s: "run_check_storage ?s = ?s\<lparr>output_text := ''Error: '' @ m4 @ [NL]\<rparr>"
    by (simp only:) blast
  have t: "threads (init ?env) = []" "launched (init ?env) = []"
    "command_running (init ?env) = False"
    by (simp_all add: init_def Let_def)
  have "threads (run_install_apk ?env ?i) = []" by (simp only: i) (simp add: t)
  moreover have "threads (run_adb_push ?env ?p) = []" by (simp only: p) (simp add: t)
  moreover have "command_running (run_adb_pull ?env ?l) = False" by (simp only: l) (simp add: t)
  moreover have "launched (run_check_storage ?s) = []" by (simp only: s) (simp add: t)
  ultimately show ?thesis using a0 a1 a b0 b by blast
qed

section \<open>One command at a time\<close>

text \<open>
  A submission made while the flag is set is refused on the spot: the handler only shows
  the busy message; the flag, the queue, the buttons, the worker threads and the log of
  launched commands are as before.
\<close>

lemma run_single_adb_command_busy:
  "command_running st \<Longrightarrow>
   run_single_adb_command cmd f btn st
     = st\<lparr>output_text := ''Error: Another command is running. Please wait.'' @ [NL]\<rparr>"
  by (simp add: run_single_adb_command_def show_error_def)

text \<open>
  Claim C1 concludes from this that at most one command is in flight at any time. The
  flag does not guard that: \<^verbatim>\<open>_check_queue\<close> clears it whenever it shows a result, also
  when the result is that of an earlier command and a later one is still running. In the
  run below the operator lists the devices, that worker ends, the operator asks for a
  reboot before the 100 ms timer has shown the first result, the timer fires, and the
  operator lists the devices again. After the timer tick the reboot worker is alive and
  the flag is clear; the last click is accepted, and two workers are in flight.
\<close>

theorem second_worker_while_first_in_flight:
  "map w_command (threads (run_events (sample_env [] (prints [])) (init (sample_env [] (prints [])))
      [Click List_devices ''20250812_101500'', Thread_exit 0, Click Reboot ''20250812_101500'',
       Check_queue_tick])) = [''adb reboot'']
   \<and> command_running (run_events (sample_env [] (prints [])) (init (sample_env [] (prints [])))
      [Click List_devices ''20250812_101500'', Thread_exit 0, Click Reboot ''20250812_101500'',
       Check_queue_tick]) = False
   \<and> map w_command (threads (run_events (sample_env [] (prints [])) (init (sample_env [] (prints [])))
      [Click List_devices ''20250812_101500'', Thread_exit 0, Click Reboot ''20250812_101500'',
       Check_queue_tick, Click List_devices ''20250812_101501'']))
     = [''adb reboot'', ''adb devices'']"
  by (simp add: run_events_def init_def run_single_adb_command_def thread_exit_def
      thread_target_def thread_try_def check_queue_def sample_env_def prints_def Let_def)

section \<open>What the command line of a click depends on\<close>

text \<open>
  A click on any operation but the screenshot does what \<^const>\<open>handler_outcome\<close> says, and
  that outcome is read from the entry fields, the environment and the timestamp only.
\<close>

lemma invocations_show_error: "invocations s (show_error msg s) = []"
  by (simp add: invocations_def show_error_def)

lemma invocations_run_single:
  "invocations s (run_single_adb_command cmd f btn s) = (if command_running s then [] else [cmd])"
  by (simp add: invocations_def run_single_adb_command_def show_error_def)

lemmas handler_defs =
  run_install_apk_def run_search_apk_def run_uninstall_apk_def run_sideload_firmware_def
  run_check_storage_def run_adb_push_def run_adb_pull_def run_text_input_def
  run_execute_command_def run_start_activity_def

lemma click_handler_outcome:
  assumes "op \<noteq> Screen_shot"
  shows "click env ts op s =
           (case handler_outcome env ts op s of
              Inl msg \<Rightarrow> show_error msg s
            | Inr (cmd, btn) \<Rightarrow> run_single_adb_command cmd (formatter_of op) btn s)"
  using assms by (cases op) (simp_all add: handler_defs Let_def)

lemma handler_outcome_entries:
  assumes "same_entries s t"
  shows "handler_outcome env ts op s = handler_outcome env ts op t"
  using assms by (cases op) (simp_all add: same_entries_def)

lemma run_screenshot_invocations:
  "invocations s (run_screenshot env ts s)
     \<in> {[fst (screenshot_commands env ts)],
        [fst (screenshot_commands env ts), fst (snd (screenshot_commands env ts))]}"
  by (simp add: invocations_def run_screenshot_def Let_def
      split: prod.splits option.splits sum.splits)

lemma run_screenshot_invocations_eq:
  "invocations s (run_screenshot env ts s) = invocations t (run_screenshot env ts t)"
  by (simp add: invocations_def run_screenshot_def Let_def
      split: prod.splits option.splits sum.splits)

lemma run_screenshot_frame:
  "same_entries (run_screenshot env ts s) s
   \<and> command_running (run_screenshot env ts s) = command_running s
   \<and> result_queue (run_screenshot env ts s) = result_queue s
   \<and> threads (run_screenshot env ts s) = threads s
   \<and> disabled (run_screenshot env ts s) = disabled s"
  by (simp add: same_entries_def run_screenshot_def Let_def
      split: prod.splits option.splits sum.splits)

text \<open>
  Claim C7 has the command line settled by the operation and the texts the operator
  entered. The handlers also consult the machine they run on: the install handler asks
  whether the file exists, and the push handler expands \<^verbatim>\<open>~\<close> to the home directory.
  With the same entry texts, the install click builds its command line when the file
  exists and builds none when it does not, and the push click builds another command
  line under another home directory.
\<close>

theorem same_parameters_other_environment:
  "invocations
     ((init (sample_env [''/tmp/app.apk''] (prints [])))\<lparr>install_apk_entry := ''/tmp/app.apk''\<rparr>)
     (click (sample_env [''/tmp/app.apk''] (prints [])) ''20250812_101500'' Install_apk
        ((init (sample_env [''/tmp/app.apk''] (prints [])))
           \<lparr>install_apk_entry := ''/tmp/app.apk''\<rparr>))
     = [''adb install '' @ [DQ] @ ''/tmp/app.apk'' @ [DQ]]
   \<and> invocations
     ((init (sample_env [''/tmp/app.apk''] (prints [])))\<lparr>install_apk_entry := ''/tmp/app.apk''\<rparr>)
     (click (sample_env [] (prints [])) ''20250812_101500'' Install_apk
        ((init (sample_env [''/tmp/app.apk''] (prints [])))
           \<lparr>install_apk_entry := ''/tmp/app.apk''\<rparr>))
     = []
   \<and> invocations
     ((init (sample_env [''/Users/patrickxu/notes.txt'', ''/Users/guest/notes.txt''] (prints [])))
        \<lparr>push_local_entry := ''~/notes.txt''\<rparr>)
     (click (sample_env [''/Users/patrickxu/notes.txt'', ''/Users/guest/notes.txt''] (prints []))
        ''20250812_101500'' Push_file
        ((init (sample_env [''/Users/patrickxu/notes.txt'', ''/Users/guest/notes.txt'']
                  (prints [])))
           \<lparr>push_local_entry := ''~/notes.txt''\<rparr>))
     = [''adb push '' @ [DQ] @ ''/Users/patrickxu/notes.txt'' @ [DQ] @ '' ''
        @ [DQ] @ ''/sdcard/'' @ [DQ]]
   \<and> invocations
     ((init (sample_env [''/Users/patrickxu/notes.txt'', ''/Users/guest/notes.txt''] (prints [])))
        \<lparr>push_local_entry := ''~/notes.txt''\<rparr>)
     (click ((sample_env [''/Users/patrickxu/notes.txt'', ''/Users/guest/notes.txt''] (prints []))
               \<lparr>expanduser := (\<lambda>p. if prefix ''~'' p then ''/Users/guest'' @ drop 1 p else p)\<rparr>)
        ''20250812_101500'' Push_file
        ((init (sample_env [''/Users/patrickxu/notes.txt'', ''/Users/guest/notes.txt'']
                  (prints [])))
           \<lparr>push_local_entry := ''~/notes.txt''\<rparr>))
     = [''adb push '' @ [DQ] @ ''/Users/guest/notes.txt'' @ [DQ] @ '' ''
        @ [DQ] @ ''/sdcard/'' @ [DQ]]"
  by (simp add: invocations_def run_install_apk_def run_adb_push_def init_def Let_def
      sample_env_def sample_expanduser_def strip_def isspace_def lower_def lower_char_def
      suffix_to_prefix run_single_adb_command_def show_error_def)

text \<open>
  Claim C7, as amended. In a given environment (the files present and the home
  directory) and at a given timestamp, what a click does is settled by the operation and
  the texts of the entry fields. For every operation but the screenshot there is one
  outcome, an error message or a command line with its button, such that from every
  state that shows these entries the handler does exactly one thing: it shows that
  message, or it hands that command line to the runner with the formatter of the
  operation. The flag, the output box, the queue, the counter, the buttons, the live
  workers and the launch log have no part in the outcome, and the handler touches the
  state only through these two calls. The screenshot handler, which runs its commands
  itself, hands the same one or two command lines to the operating system from every
  state, and leaves the entries, the flag, the queue, the workers and the buttons as
  they were.
\<close>

theorem command_formatting_reads_entries_only:
  "(op \<noteq> Screen_shot \<longrightarrow>
      (\<exists>r. \<forall>s. same_entries s t \<longrightarrow>
              click env ts op s =
                (case r of
                   Inl msg \<Rightarrow> show_error msg s
                 | Inr (cmd, btn) \<Rightarrow> run_single_adb_command cmd (formatter_of op) btn s)))
   \<and> (\<forall>s. invocations s (run_screenshot env ts s) = invocations t (run_screenshot env ts t)
           \<and> invocations s (run_screenshot env ts s)
               \<in> {[fst (screenshot_commands env ts)],
                  [fst (screenshot_commands env ts), fst (snd (screenshot_commands env ts))]}
           \<and> same_entries (run_screenshot env ts s) s
           \<and> command_running (run_screenshot env ts s) = command_running s
           \<and> result_queue (run_screenshot env ts s) = result_queue s
           \<and> threads (run_screenshot env ts s) = threads s
           \<and> disabled (run_screenshot env ts s) = disabled s)"
proof (intro conjI impI allI)
  assume op: "op \<noteq> Screen_shot"
  have "\<forall>s. same_entries s t \<longrightarrow>
          click env ts op s =
            (case handler_outcome env ts op t of
               Inl msg \<Rightarrow> show_error msg s
             | Inr (cmd, btn) \<Rightarrow> run_single_adb_command cmd (formatter_of op) btn s)"
    using click_handler_outcome [OF op] handler_outcome_entries by simp
  then show "\<exists>r. \<forall>s. same_entries s t \<longrightarrow>
              click env ts op s =
                (case r of
                   Inl msg \<Rightarrow> show_error msg s
                 | Inr (cmd, btn) \<Rightarrow> run_single_adb_command cmd (formatter_of op) btn s)"
    by (rule exI)
qed (simp_all add: run_screenshot_invocations_eq run_screenshot_frame
      run_screenshot_invocations [simplified])

theorem command_formatting_reads_entries_only_witness:
  "Install_apk \<noteq> Screen_shot
   \<and> same_entries
        ((init (sample_env [''/tmp/app.apk''] (prints ''Success'')))
           \<lparr>install_apk_entry := ''/tmp/app.apk'', command_running := True,
            output_text := ''Still running... (7s)'' @ [NL]\<rparr>)
        ((init (sample_env [''/tmp/app.apk''] (prints ''Success'')))
           \<lparr>install_apk_entry := ''/tmp/app.apk''\<rparr>)
   \<and> (\<exists>r. click (sample_env [''/tmp/app.apk''] (prints ''Success'')) ''20250812_101500''
              Install_apk
              ((init (sample_env [''/tmp/app.apk''] (prints ''Success'')))
                 \<lparr>install_apk_entry := ''/tmp/app.apk''\<rparr>)
            = (case r of
                 Inl msg \<Rightarrow> show_error msg
                   ((init (sample_env [''/tmp/app.apk''] (prints ''Success'')))
                      \<lparr>install_apk_entry := ''/tmp/app.apk''\<rparr>)
               | Inr (cmd, btn) \<Rightarrow> run_single_adb_command cmd (formatter_of Install_apk) btn
                   ((init (sample_env [''/tmp/app.apk''] (prints ''Success'')))
                      \<lparr>install_apk_entry := ''/tmp/app.apk''\<rparr>))
          \<and> click (sample_env [''/tmp/app.apk''] (prints ''Success'')) ''20250812_101500''
              Install_apk
              ((init (sample_env [''/tmp/app.apk''] (prints ''Success'')))
                 \<lparr>install_apk_entry := ''/tmp/app.apk'', command_running := True,
                  output_text := ''Still running... (7s)'' @ [NL]\<rparr>)
            = (case r of
                 Inl msg \<Rightarrow> show_error msg
                   ((init (sample_env [''/tmp/app.apk''] (prints ''Success'')))
                      \<lparr>install_apk_entry := ''/tmp/app.apk'', command_running := True,
                       output_text := ''Still running... (7s)'' @ [NL]\<rparr>)
               | Inr (cmd, btn) \<Rightarrow> run_single_adb_command cmd (formatter_of Install_apk) btn
                   ((init (sample_env [''/tmp/app.apk''] (prints ''Success'')))
                      \<lparr>install_apk_entry := ''/tmp/app.apk'', command_running := True,
                       output_text := ''Still running... (7s)'' @ [NL]\<rparr>)))"
proof -
  define env where "env = sample_env [''/tmp/app.apk''] (prints ''Success'')"
  define t where "t = (init env)\<lparr>install_apk_entry := ''/tmp/app.apk''\<rparr>"
  define s where "s = (init env)\<lparr>install_apk_entry := ''/tmp/app.apk'', command_running := True,
                                output_text := ''Still running... (7s)'' @ [NL]\<rparr>"
  have op: "Install_apk \<noteq> Screen_shot" by simp
  have st: "same_entries s t" by (simp add: same_entries_def s_def t_def)
  have tt: "same_entries t t" by (simp add: same_entries_def)
  from command_formatting_reads_entries_only [of Install_apk t env "''20250812_101500''"] op
  obtain r where
    r: "\<forall>s. same_entries s t \<longrightarrow>
          click env ''20250812_101500'' Install_apk s =
            (case r of
               Inl msg \<Rightarrow> show_error msg s
             | Inr (cmd, btn) \<Rightarrow>
                 run_single_adb_command cmd (formatter_of Install_apk) btn s)"
    by blast
  from r st tt have
    "click env ''20250812_101500'' Install_apk t =
       (case r of
          Inl msg \<Rightarrow> show_error msg t
        | Inr (cmd, btn) \<Rightarrow> run_single_adb_command cmd (formatter_of Install_apk) btn t)
     \<and> click env ''20250812_101500'' Install_apk s =
       (case r of
          Inl msg \<Rightarrow> show_error msg s
        | Inr (cmd, btn) \<Rightarrow> run_single_adb_command cmd (formatter_of Install_apk) btn s)"
    by blast
  then have "\<exists>r. click env ''20250812_101500'' Install_apk t =
       (case r of
          Inl msg \<Rightarrow> show_error msg t
        | Inr (cmd, btn) \<Rightarrow> run_single_adb_command cmd (formatter_of Install_apk) btn t)
     \<and> click env ''20250812_101500'' Install_apk s =
       (case r of
          Inl msg \<Rightarrow> show_error msg s
        | Inr (cmd, btn) \<Rightarrow> run_single_adb_command cmd (formatter_of Install_apk) btn s)"
    by (rule exI)
  with op st show ?thesis unfolding s_def t_def env_def by blast
qed

section \<open>The round trip from a click to the displayed text\<close>





































end
